theory Spec2Isabelle
  imports Complex_Main "HOL-Library.AList" "HOL-Library.Log_Nat"
begin

section \<open>Metric values\<close>

text \<open>
  A metric carries \<^verbatim>\<open>Values map[string]interface{}\<close>. The dynamic values the
  code distinguishes are \<^verbatim>\<open>float64\<close>, \<^verbatim>\<open>int\<close> and \<^verbatim>\<open>int64\<close>; everything
  else (strings, booleans, nested JSON) is \<open>VOther\<close>. A \<^verbatim>\<open>float64\<close> is read as the real
  number it denotes; NaN and the infinities are outside this model. The arithmetic of the
  aggregator is taken on these reals, its rounding set aside; the arithmetic of the
  validator, whose decisions depend on the rounding, is rounded as \<^verbatim>\<open>float64\<close> rounds
  (section on \<^verbatim>\<open>float64\<close> below).
\<close>

datatype val = VFloat64 real | VInt int | VInt64 int | VOther

type_synonym vals = "string \<rightharpoonup> val"

record Metric =
  Type :: string
  Values :: vals

text \<open>\<^verbatim>\<open>math.MaxFloat64\<close>, the largest finite double.\<close>

definition MaxFloat64 :: real where
  "MaxFloat64 = (2 ^ 53 - 1) * 2 ^ 971"

definition getFloat64 :: "vals \<Rightarrow> string \<Rightarrow> real \<Rightarrow> real" where
  "getFloat64 values key defaultValue =
     (case values key of
        Some (VFloat64 v) \<Rightarrow> v
      | Some (VInt v) \<Rightarrow> real_of_int v
      | Some (VInt64 v) \<Rightarrow> real_of_int v
      | _ \<Rightarrow> defaultValue)"

definition HasPrefix :: "string \<Rightarrow> string \<Rightarrow> bool" where
  "HasPrefix s p = (take (length p) s = p)"

section \<open>The merge kernel of the aggregator\<close>

definition percentiles :: "string list" where
  "percentiles = [''p(50)'', ''p(90)'', ''p(95)'', ''p(99)'']"

text \<open>One round of the loop over \<open>percentiles\<close> in \<^verbatim>\<open>mergeTrendMetric\<close>.\<close>

definition mergePercentile :: "vals \<Rightarrow> real \<Rightarrow> real \<Rightarrow> real \<Rightarrow> vals \<Rightarrow> string \<Rightarrow> vals" where
  "mergePercentile sourceValues targetCount sourceCount totalCount targetValues p =
     (if targetValues p \<noteq> None then
        (if sourceValues p \<noteq> None then
           (let targetP = getFloat64 targetValues p 0;
                sourceP = getFloat64 sourceValues p 0;
                weightedP = (targetP * targetCount + sourceP * sourceCount) / totalCount
            in targetValues(p \<mapsto> VFloat64 weightedP))
         else targetValues)
      else targetValues)"

text \<open>
  \<^verbatim>\<open>mergeTrendMetric\<close> mutates the target in place; the model returns the new target.
  The strategy argument is not read by the source.
\<close>

definition mergeTrendMetric :: "Metric \<Rightarrow> Metric \<Rightarrow> string \<Rightarrow> Metric" where
  "mergeTrendMetric target source mergeStrategy =
     (let targetValues = Values target;
          sourceValues = Values source;
          targetCount = getFloat64 targetValues ''count'' 0;
          sourceCount = getFloat64 sourceValues ''count'' 0;
          totalCount = targetCount + sourceCount
      in if totalCount = 0 then target
         else
          (let tv1 = targetValues(''count'' \<mapsto> VFloat64 totalCount);
               tv2 = tv1(''min'' \<mapsto> VFloat64 (min (getFloat64 tv1 ''min'' MaxFloat64)
                                                  (getFloat64 sourceValues ''min'' MaxFloat64)));
               tv3 = tv2(''max'' \<mapsto> VFloat64 (max (getFloat64 tv2 ''max'' 0)
                                                  (getFloat64 sourceValues ''max'' 0)));
               targetAvg = getFloat64 tv3 ''avg'' 0;
               sourceAvg = getFloat64 sourceValues ''avg'' 0;
               targetSum = targetAvg * targetCount;
               sourceSum = sourceAvg * sourceCount;
               totalSum = targetSum + sourceSum;
               tv4 = tv3(''avg'' \<mapsto> VFloat64 (totalSum / totalCount));
               tv5 = foldl (mergePercentile sourceValues targetCount sourceCount totalCount)
                       tv4 percentiles;
               tv6 = (if totalCount > 0
                      then tv5(''rate'' \<mapsto> VFloat64 (totalCount / getFloat64 tv5 ''duration'' 1))
                      else tv5)
           in target\<lparr>Values := tv6\<rparr>))"

definition mergeCounterMetric :: "Metric \<Rightarrow> Metric \<Rightarrow> Metric" where
  "mergeCounterMetric target source =
     (let targetValues = Values target;
          sourceValues = Values source;
          targetCount = getFloat64 targetValues ''count'' 0;
          sourceCount = getFloat64 sourceValues ''count'' 0;
          tv1 = targetValues(''count'' \<mapsto> VFloat64 (targetCount + sourceCount));
          totalCount = targetCount + sourceCount;
          tv2 = (if totalCount > 0
                 then tv1(''rate'' \<mapsto> VFloat64 (totalCount / getFloat64 tv1 ''duration'' 1))
                 else tv1)
      in target\<lparr>Values := tv2\<rparr>)"

definition mergeRateMetric :: "Metric \<Rightarrow> Metric \<Rightarrow> Metric" where
  "mergeRateMetric target source =
     (let targetValues = Values target;
          sourceValues = Values source;
          targetPasses = getFloat64 targetValues ''passes'' 0;
          sourcePasses = getFloat64 sourceValues ''passes'' 0;
          targetFails = getFloat64 targetValues ''fails'' 0;
          sourceFails = getFloat64 sourceValues ''fails'' 0;
          tv1 = targetValues(''passes'' \<mapsto> VFloat64 (targetPasses + sourcePasses));
          tv2 = tv1(''fails'' \<mapsto> VFloat64 (targetFails + sourceFails));
          totalPasses = targetPasses + sourcePasses;
          totalFails = targetFails + sourceFails;
          total = totalPasses + totalFails;
          tv3 = (if total > 0 then tv2(''value'' \<mapsto> VFloat64 (totalPasses / total)) else tv2)
      in target\<lparr>Values := tv3\<rparr>)"

text \<open>
  \<^verbatim>\<open>mergeGaugeMetric\<close> ranges over the source's keys; each key is handled on its own, so
  the result is given key by key.
\<close>

definition mergeGaugeMetric :: "Metric \<Rightarrow> Metric \<Rightarrow> Metric" where
  "mergeGaugeMetric target source =
     target\<lparr>Values := (\<lambda>key.
        (case Values source key of
           Some (VFloat64 sourceFloat) \<Rightarrow>
             (case Values target key of
                Some (VFloat64 targetFloat) \<Rightarrow> Some (VFloat64 (max targetFloat sourceFloat))
              | Some other \<Rightarrow> Some other
              | None \<Rightarrow> Some (VFloat64 sourceFloat))
         | _ \<Rightarrow> Values target key))\<rparr>"

definition mergeMetric :: "Metric \<Rightarrow> Metric \<Rightarrow> string \<Rightarrow> Metric" where
  "mergeMetric target source mergeStrategy =
     (if Type target \<noteq> Type source then target
      else if Type target = ''trend'' then mergeTrendMetric target source mergeStrategy
      else if Type target = ''counter'' then mergeCounterMetric target source
      else if Type target = ''rate'' then mergeRateMetric target source
      else if Type target = ''gauge'' then mergeGaugeMetric target source
      else target)"

definition cloneMetric :: "Metric \<Rightarrow> Metric" where
  "cloneMetric metric = \<lparr>Type = Type metric, Values = (\<lambda>k. Values metric k)\<rparr>"

section \<open>Aggregation under the cardinality ceiling\<close>

definition globalMetrics :: "string list" where
  "globalMetrics =
     [''checks'', ''data_received'', ''data_sent'', ''http_req_duration'',
      ''http_req_failed'', ''http_reqs'', ''iterations'', ''vus'', ''vus_max'',
      ''http_req_blocked'', ''http_req_connecting'', ''http_req_sending'',
      ''http_req_waiting'', ''http_req_receiving'', ''http_req_tls_handshaking'']"

definition isGlobalMetric :: "string \<Rightarrow> bool" where
  "isGlobalMetric name =
     list_ex (\<lambda>global. name = global \<or> HasPrefix name (global @ ''_'')) globalMetrics"

definition normalizeEndpoint :: "string \<Rightarrow> string" where
  "normalizeEndpoint endpoint = endpoint"

record Config =
  MaxEndpoints :: int
  NoBucket :: bool
  MergePercentiles :: string

text \<open>
  The local variables of \<^verbatim>\<open>AggregateMetrics\<close> that the metric loop updates, with
  \<open>result_Metrics\<close> the map \<^verbatim>\<open>result.Metrics\<close>. A snapshot is given by its metrics in
  the order the \<^verbatim>\<open>range\<close> loop visits them (Go leaves that order open); root group,
  checks and timestamps do not influence the metric loop and are left out.
\<close>

record AggState =
  endpointMap :: "string \<rightharpoonup> string"
  endpointCount :: int
  endpointsBucketed :: int
  result_Metrics :: "string \<rightharpoonup> Metric"

type_synonym Snapshot = "(string \<times> Metric) list"

definition storeMetric :: "Config \<Rightarrow> string \<Rightarrow> Metric \<Rightarrow> AggState \<Rightarrow> AggState" where
  "storeMetric config normalizedName metric st =
     (case result_Metrics st normalizedName of
        Some existing \<Rightarrow>
          st\<lparr>result_Metrics := (result_Metrics st)(normalizedName \<mapsto>
                mergeMetric existing metric (MergePercentiles config))\<rparr>
      | None \<Rightarrow>
          st\<lparr>result_Metrics := (result_Metrics st)(normalizedName \<mapsto> cloneMetric metric)\<rparr>)"

text \<open>
  The body of the loop over \<^verbatim>\<open>metrics.Metrics\<close>. \<open>md5hex\<close> stands for
  \<^verbatim>\<open>fmt.Sprintf("%x", md5.Sum([]byte(s)))\<close> of the standard library.
\<close>

definition aggregateMetric ::
  "(string \<Rightarrow> string) \<Rightarrow> Config \<Rightarrow> AggState \<Rightarrow> string \<times> Metric \<Rightarrow> AggState" where
  "aggregateMetric md5hex config st entry =
     (let metricName = fst entry; metric = snd entry in
      if isGlobalMetric metricName then st
      else
       (let normalizedName = normalizeEndpoint metricName in
        if endpointCount st \<ge> MaxEndpoints config then
          (if NoBucket config then st
           else storeMetric config ''other'' metric
                  (st\<lparr>endpointsBucketed := endpointsBucketed st + 1\<rparr>))
        else
          (let normalizedName' =
                 (case endpointMap st normalizedName of
                    Some existingOriginal \<Rightarrow>
                      (if existingOriginal \<noteq> metricName
                       then normalizedName @ ''_'' @ take 8 (md5hex metricName)
                       else normalizedName)
                  | None \<Rightarrow> normalizedName)
           in storeMetric config normalizedName' metric
                (st\<lparr>endpointMap := (endpointMap st)(normalizedName' \<mapsto> metricName),
                    endpointCount := endpointCount st + 1\<rparr>))))"

definition aggregateSnapshot ::
  "(string \<Rightarrow> string) \<Rightarrow> Config \<Rightarrow> AggState \<Rightarrow> Snapshot \<Rightarrow> AggState" where
  "aggregateSnapshot md5hex config st metrics = foldl (aggregateMetric md5hex config) st metrics"

definition addGlobalMetric :: "(string \<rightharpoonup> Metric) \<Rightarrow> string \<times> Metric \<Rightarrow> (string \<rightharpoonup> Metric)" where
  "addGlobalMetric globals entry =
     (let metricName = fst entry; metric = snd entry in
      if isGlobalMetric metricName then
        (case globals metricName of
           Some existing \<Rightarrow> globals(metricName \<mapsto> mergeMetric existing metric ''weighted'')
         | None \<Rightarrow> globals(metricName \<mapsto> cloneMetric metric))
      else globals)"

definition addGlobalMetrics :: "(string \<rightharpoonup> Metric) \<Rightarrow> Snapshot list \<Rightarrow> (string \<rightharpoonup> Metric)" where
  "addGlobalMetrics result metricsList =
     (let globals = foldl (\<lambda>g metrics. foldl addGlobalMetric g metrics) Map.empty metricsList
      in result ++ globals)"

datatype error = NoMetrics

definition initialAggState :: AggState where
  "initialAggState =
     \<lparr>endpointMap = Map.empty, endpointCount = 0, endpointsBucketed = 0,
      result_Metrics = Map.empty\<rparr>"

definition AggregateMetrics ::
  "(string \<Rightarrow> string) \<Rightarrow> Snapshot list \<Rightarrow> Config \<Rightarrow> error + (string \<rightharpoonup> Metric)" where
  "AggregateMetrics md5hex metricsList config =
     (if length metricsList = 0 then Inl NoMetrics
      else
       (let st = foldl (aggregateSnapshot md5hex config) initialAggState metricsList
        in Inr (addGlobalMetrics (result_Metrics st) metricsList)))"

section \<open>Arithmetic on \<^verbatim>\<open>float64\<close>\<close>

text \<open>
  The validator decides by comparing \<^verbatim>\<open>float64\<close> values, and rounding moves its bounds,
  so its arithmetic is modelled as IEEE 754 binary64 arithmetic on the finite values: the
  exact result rounded to the nearest value with a 53-bit significand, ties to the even
  significand, with the subnormal spacing \<open>2\<^sup>-\<^sup>1\<^sup>0\<^sup>7\<^sup>4\<close> below \<open>2\<^sup>-\<^sup>1\<^sup>0\<^sup>2\<^sup>2\<close>. A result beyond
  the largest finite value stays a real of that size, which compares with every finite
  value as the infinity of that sign does; NaN and operations on infinities are outside
  the model. Each operation rounds on its own (no fused multiply-add).

  \<open>ilog2 x\<close> is \<open>\<lfloor>log\<^sub>2 x\<rfloor>\<close> for \<open>x > 0\<close>, computed from bit lengths.
\<close>

definition pow2 :: "int \<Rightarrow> real" where
  "pow2 e = (if 0 \<le> e then 2 ^ nat e else 1 / 2 ^ nat (- e))"

definition ilog2 :: "real \<Rightarrow> int" where
  "ilog2 x = (if 1 \<le> x then bitlen \<lfloor>x\<rfloor> - 1 else - bitlen (\<lceil>1 / x\<rceil> - 1))"

definition roundHalfEven :: "real \<Rightarrow> int" where
  "roundHalfEven x =
     (let f = \<lfloor>x\<rfloor>; r = x - of_int f
      in if r < 1 / 2 then f else if r > 1 / 2 then f + 1 else if even f then f else f + 1)"

definition ulpExponent :: "real \<Rightarrow> int" where
  "ulpExponent x = max (ilog2 \<bar>x\<bar> - 52) (- 1074)"

definition float64 :: "real \<Rightarrow> real" where
  "float64 x =
     (if x = 0 then 0
      else of_int (roundHalfEven (x / pow2 (ulpExponent x))) * pow2 (ulpExponent x))"

definition fadd :: "real \<Rightarrow> real \<Rightarrow> real" where
  "fadd x y = float64 (x + y)"

definition fmul :: "real \<Rightarrow> real \<Rightarrow> real" where
  "fmul x y = float64 (x * y)"

definition fdiv :: "real \<Rightarrow> real \<Rightarrow> real" where
  "fdiv x y = float64 (x / y)"

text \<open>
  The conversion \<^verbatim>\<open>int64(x)\<close> of a \<^verbatim>\<open>float64\<close> truncates towards zero when the result
  fits \<^verbatim>\<open>int64\<close>. Otherwise Go leaves the result to the implementation; the value given
  here is the one of amd64, the least \<^verbatim>\<open>int64\<close>.
\<close>

definition int64_of_float64 :: "real \<Rightarrow> int" where
  "int64_of_float64 x =
     (let t = (if 0 \<le> x then \<lfloor>x\<rfloor> else \<lceil>x\<rceil>)
      in if - (2 ^ 63) \<le> t \<and> t < 2 ^ 63 then t else - (2 ^ 63))"

section \<open>Threshold configuration\<close>

text \<open>
  A \<^verbatim>\<open>time.Duration\<close> is a count of nanoseconds (\<^verbatim>\<open>int64\<close>); \<^verbatim>\<open>Milliseconds\<close>
  divides by \<open>10\<^sup>6\<close>, truncating towards zero. Optional pointer fields are options.
  The \<^verbatim>\<open>float64\<close> fields are reals, meant to hold values that \<^verbatim>\<open>float64\<close> has.
\<close>

definition Milliseconds :: "int \<Rightarrow> int" where
  "Milliseconds d = (if 0 \<le> d then d div 1000000 else - ((- d) div 1000000))"

definition Millisecond :: int where
  "Millisecond = 1000000"

record DurationThreshold =
  d_Value :: int
  d_Tolerance :: "real option"

record RateThreshold =
  r_Value :: real
  r_Tolerance :: "real option"

record ThresholdValues =
  P50 :: "DurationThreshold option"
  P90 :: "DurationThreshold option"
  P95 :: "DurationThreshold option"
  P99 :: "DurationThreshold option"
  Avg :: "DurationThreshold option"
  Maxd :: "DurationThreshold option"
  ErrorRate :: "RateThreshold option"
  RPS :: "RateThreshold option"
  MinSamples :: "int option"

record ThresholdOptions =
  TolerancePercent :: real
  opt_MinSamples :: int
  SoftFail :: bool

text \<open>
  \<open>Groups\<close> is a Go map that the resolver ranges over; it is given as the list of its
  entries in the order the \<^verbatim>\<open>range\<close> loop visits them, which Go leaves unspecified.
\<close>

record ThresholdConfig =
  Defaults :: ThresholdValues
  Groups :: "(string \<times> ThresholdValues) list"
  Endpoints :: "string \<rightharpoonup> ThresholdValues"
  Options :: ThresholdOptions

record ThresholdBreach =
  b_Endpoint :: string
  b_Metric :: string
  b_Value :: real
  b_Threshold :: real
  b_Unit :: string
  b_Severity :: string
  b_SampleCount :: int

definition noThresholds :: ThresholdValues where
  "noThresholds = \<lparr>P50 = None, P90 = None, P95 = None, P99 = None, Avg = None, Maxd = None,
     ErrorRate = None, RPS = None, MinSamples = None\<rparr>"

definition DefaultThresholdConfig :: ThresholdConfig where
  "DefaultThresholdConfig =
     \<lparr>Defaults = noThresholds
        \<lparr>P95 := Some \<lparr>d_Value = 500 * Millisecond, d_Tolerance = None\<rparr>,
         P99 := Some \<lparr>d_Value = 1000 * Millisecond, d_Tolerance = None\<rparr>,
         Avg := Some \<lparr>d_Value = 200 * Millisecond, d_Tolerance = None\<rparr>,
         ErrorRate := Some \<lparr>r_Value = float64 0.01, r_Tolerance = None\<rparr>\<rparr>,
      Groups =
        [(''auth/*'', noThresholds\<lparr>P95 := Some \<lparr>d_Value = 350 * Millisecond, d_Tolerance = None\<rparr>\<rparr>),
         (''catalog/*'', noThresholds\<lparr>P95 := Some \<lparr>d_Value = 450 * Millisecond, d_Tolerance = None\<rparr>\<rparr>)],
      Endpoints =
        [''GET /users'' \<mapsto> noThresholds
           \<lparr>P95 := Some \<lparr>d_Value = 300 * Millisecond, d_Tolerance = None\<rparr>,
            Avg := Some \<lparr>d_Value = 150 * Millisecond, d_Tolerance = None\<rparr>\<rparr>,
         ''POST /orders'' \<mapsto> noThresholds
           \<lparr>P95 := Some \<lparr>d_Value = 800 * Millisecond, d_Tolerance = None\<rparr>,
            Avg := Some \<lparr>d_Value = 400 * Millisecond, d_Tolerance = None\<rparr>\<rparr>],
      Options = \<lparr>TolerancePercent = 10, opt_MinSamples = 100, SoftFail = False\<rparr>\<rparr>"

section \<open>Threshold resolution\<close>

definition ReplaceAll_star :: "string \<Rightarrow> string" where
  "ReplaceAll_star pattern = concat (map (\<lambda>c. if c = CHR ''*'' then ''.*'' else [c]) pattern)"

text \<open>
  \<open>MatchString\<close> stands for \<^verbatim>\<open>regexp.MatchString\<close> of the standard library:
  \<open>None\<close> when the expression does not compile, otherwise whether it matches.
\<close>

definition matchesPattern :: "(string \<Rightarrow> string \<Rightarrow> bool option) \<Rightarrow> string \<Rightarrow> string \<Rightarrow> bool" where
  "matchesPattern MatchString endpoint pattern =
     (let regexPattern = ReplaceAll_star pattern;
          regexPattern = ''^'' @ regexPattern @ ''$''
      in case MatchString regexPattern endpoint of
           None \<Rightarrow> endpoint = pattern
         | Some matched \<Rightarrow> matched)"

definition mergeThresholdValues :: "ThresholdValues \<Rightarrow> ThresholdValues \<Rightarrow> ThresholdValues" where
  "mergeThresholdValues base override =
     \<lparr>P50 = (if P50 override \<noteq> None then P50 override else P50 base),
      P90 = (if P90 override \<noteq> None then P90 override else P90 base),
      P95 = (if P95 override \<noteq> None then P95 override else P95 base),
      P99 = (if P99 override \<noteq> None then P99 override else P99 base),
      Avg = (if Avg override \<noteq> None then Avg override else Avg base),
      Maxd = (if Maxd override \<noteq> None then Maxd override else Maxd base),
      ErrorRate = (if ErrorRate override \<noteq> None then ErrorRate override else ErrorRate base),
      RPS = (if RPS override \<noteq> None then RPS override else RPS base),
      MinSamples = (if MinSamples override \<noteq> None then MinSamples override else MinSamples base)\<rparr>"

text \<open>The loop over \<open>Groups\<close>, which stops at the first pattern that matches.\<close>

fun overlayFirstGroup ::
  "(string \<Rightarrow> string \<Rightarrow> bool option) \<Rightarrow> string \<Rightarrow> (string \<times> ThresholdValues) list
     \<Rightarrow> ThresholdValues \<Rightarrow> ThresholdValues" where
  "overlayFirstGroup MatchString endpoint [] result = result"
| "overlayFirstGroup MatchString endpoint ((pattern, groupThresholds) # rest) result =
     (if matchesPattern MatchString endpoint pattern
      then mergeThresholdValues result groupThresholds
      else overlayFirstGroup MatchString endpoint rest result)"

definition GetThresholdForEndpoint ::
  "(string \<Rightarrow> string \<Rightarrow> bool option) \<Rightarrow> ThresholdConfig \<Rightarrow> string \<Rightarrow> ThresholdValues" where
  "GetThresholdForEndpoint MatchString tc endpoint =
     (let result = Defaults tc;
          result = overlayFirstGroup MatchString endpoint (Groups tc) result
      in case Endpoints tc endpoint of
           Some endpointThresholds \<Rightarrow> mergeThresholdValues result endpointThresholds
         | None \<Rightarrow> result)"

section \<open>Threshold validation\<close>

definition systemMetrics :: "string list" where
  "systemMetrics =
     [''http_req_duration'', ''http_reqs'', ''http_req_failed'', ''iterations'',
      ''checks'', ''data_sent'', ''data_received'', ''vus'', ''vus_max'']"

definition isEndpointMetric :: "string \<Rightarrow> bool" where
  "isEndpointMetric metricName = (\<not> list_ex (\<lambda>sys. HasPrefix metricName sys) systemMetrics)"

definition durationChecks :: "ThresholdValues \<Rightarrow> (string \<times> DurationThreshold option) list" where
  "durationChecks thresholds =
     [(''p(50)'', P50 thresholds), (''p(90)'', P90 thresholds), (''p(95)'', P95 thresholds),
      (''p(99)'', P99 thresholds), (''avg'', Avg thresholds), (''max'', Maxd thresholds)]"

text \<open>One round of the loop over the checks in \<^verbatim>\<open>checkDurationThresholds\<close>.\<close>

definition checkDuration ::
  "ThresholdConfig \<Rightarrow> string \<Rightarrow> Metric \<Rightarrow> int \<Rightarrow> string \<times> DurationThreshold option
     \<Rightarrow> ThresholdBreach list" where
  "checkDuration tc endpoint metric sampleCount check =
     (case snd check of
        None \<Rightarrow> []
      | Some threshold \<Rightarrow>
          (case Values metric (fst check) of
             Some (VFloat64 v) \<Rightarrow>
               (let thresholdMs = float64 (real_of_int (Milliseconds (d_Value threshold)));
                    tolerance = (case d_Tolerance threshold of
                                   Some t \<Rightarrow> t
                                 | None \<Rightarrow> TolerancePercent (Options tc));
                    effectiveThreshold = fmul thresholdMs (fadd 1 (fdiv tolerance 100))
                in if v > effectiveThreshold then
                     [\<lparr>b_Endpoint = endpoint, b_Metric = fst check, b_Value = v,
                       b_Threshold = thresholdMs, b_Unit = ''ms'',
                       b_Severity = (if v \<le> fmul thresholdMs (fadd 1 (fmul (fdiv tolerance 100) 1.5))
                                     then ''warning'' else ''error''),
                       b_SampleCount = sampleCount\<rparr>]
                   else [])
           | _ \<Rightarrow> []))"

definition checkDurationThresholds ::
  "ThresholdConfig \<Rightarrow> string \<Rightarrow> Metric \<Rightarrow> ThresholdValues \<Rightarrow> int \<Rightarrow> ThresholdBreach list" where
  "checkDurationThresholds tc endpoint metric thresholds sampleCount =
     concat (map (checkDuration tc endpoint metric sampleCount) (durationChecks thresholds))"

definition checkErrorRate ::
  "ThresholdConfig \<Rightarrow> string \<Rightarrow> Metric \<Rightarrow> ThresholdValues \<Rightarrow> int \<Rightarrow> ThresholdBreach list" where
  "checkErrorRate tc endpoint metric thresholds sampleCount =
     (case ErrorRate thresholds of
        None \<Rightarrow> []
      | Some er \<Rightarrow>
          (let errorRate =
                 (case Values metric ''fails'' of
                    Some (VInt64 fails) \<Rightarrow>
                      (case Values metric ''count'' of
                         Some (VInt64 total_count) \<Rightarrow>
                           (if total_count > 0
                            then fdiv (float64 (real_of_int fails)) (float64 (real_of_int total_count))
                            else 0)
                       | _ \<Rightarrow> 0)
                  | _ \<Rightarrow> 0);
               threshold = r_Value er;
               tolerance = (case r_Tolerance er of
                              Some t \<Rightarrow> t
                            | None \<Rightarrow> TolerancePercent (Options tc));
               effectiveThreshold = fmul threshold (fadd 1 (fdiv tolerance 100))
           in if errorRate > effectiveThreshold then
                [\<lparr>b_Endpoint = endpoint, b_Metric = ''error_rate'', b_Value = fmul errorRate 100,
                  b_Threshold = fmul threshold 100, b_Unit = ''%'',
                  b_Severity = (if errorRate \<le> fmul threshold (fadd 1 (fmul (fdiv tolerance 100) 1.5))
                                then ''warning'' else ''error''),
                  b_SampleCount = sampleCount\<rparr>]
              else []))"

definition checkRPS ::
  "ThresholdConfig \<Rightarrow> string \<Rightarrow> Metric \<Rightarrow> ThresholdValues \<Rightarrow> int \<Rightarrow> ThresholdBreach list" where
  "checkRPS tc endpoint metric thresholds sampleCount =
     (case RPS thresholds of
        None \<Rightarrow> []
      | Some rps \<Rightarrow>
          (case Values metric ''rate'' of
             Some (VFloat64 rate) \<Rightarrow>
               (let threshold = r_Value rps;
                    tolerance = (case r_Tolerance rps of
                                   Some t \<Rightarrow> t
                                 | None \<Rightarrow> TolerancePercent (Options tc));
                    effectiveThreshold = fmul threshold (fadd 1 (fdiv tolerance 100))
                in if rate > effectiveThreshold then
                     [\<lparr>b_Endpoint = endpoint, b_Metric = ''rps'', b_Value = rate,
                       b_Threshold = threshold, b_Unit = ''req/s'',
                       b_Severity = (if rate \<le> fmul threshold (fadd 1 (fmul (fdiv tolerance 100) 1.5))
                                     then ''warning'' else ''error''),
                       b_SampleCount = sampleCount\<rparr>]
                   else [])
           | _ \<Rightarrow> []))"

definition checkRateThresholds ::
  "ThresholdConfig \<Rightarrow> string \<Rightarrow> Metric \<Rightarrow> ThresholdValues \<Rightarrow> int \<Rightarrow> ThresholdBreach list" where
  "checkRateThresholds tc endpoint metric thresholds sampleCount =
     checkErrorRate tc endpoint metric thresholds sampleCount
     @ checkRPS tc endpoint metric thresholds sampleCount"

definition sampleCountOf :: "Metric \<Rightarrow> int" where
  "sampleCountOf metric =
     (case Values metric ''count'' of
        Some (VInt64 count) \<Rightarrow> count
      | Some (VFloat64 count) \<Rightarrow> int64_of_float64 count
      | _ \<Rightarrow> 0)"

text \<open>The body of the loop over \<^verbatim>\<open>metrics.Metrics\<close> in \<^verbatim>\<open>ValidateThresholds\<close>.\<close>

definition validateMetric ::
  "(string \<Rightarrow> string \<Rightarrow> bool option) \<Rightarrow> ThresholdConfig \<Rightarrow> int \<Rightarrow> string \<times> Metric
     \<Rightarrow> ThresholdBreach list" where
  "validateMetric MatchString tc minSamples entry =
     (let metricName = fst entry; metric = snd entry in
      if \<not> isEndpointMetric metricName then []
      else
       (let endpoint = metricName;
            thresholds = GetThresholdForEndpoint MatchString tc endpoint;
            sampleCount = sampleCountOf metric
        in if sampleCount < minSamples then []
           else checkDurationThresholds tc endpoint metric thresholds sampleCount
                @ checkRateThresholds tc endpoint metric thresholds sampleCount))"

definition effectiveMinSamples :: "ThresholdConfig \<Rightarrow> int" where
  "effectiveMinSamples tc =
     (let minSamples = opt_MinSamples (Options tc)
      in if minSamples = 0 then 100 else minSamples)"

text \<open>
  The metrics are given in the order the \<^verbatim>\<open>range\<close> loop visits them; breaches are
  appended in that order.
\<close>

definition ValidateThresholds ::
  "(string \<Rightarrow> string \<Rightarrow> bool option) \<Rightarrow> ThresholdConfig \<Rightarrow> (string \<times> Metric) list
     \<Rightarrow> ThresholdBreach list" where
  "ValidateThresholds MatchString tc metrics =
     (let minSamples = effectiveMinSamples tc
      in concat (map (validateMetric MatchString tc minSamples) metrics))"

section \<open>A stand-in for the regular-expression library\<close>

text \<open>
  The concrete examples need some value for \<^verbatim>\<open>regexp.MatchString\<close>. \<open>globMatchString\<close>
  agrees with it on the expressions the resolver builds from patterns made of letters,
  digits, space, \<open>/\<close>, \<open>_\<close>, \<open>-\<close> and \<open>*\<close>: an anchored sequence of literal characters and
  \<open>.*\<close> (any run of characters other than a line feed). Other expressions are not
  in its domain and it answers \<open>None\<close> for them.
\<close>

datatype gtok = Lit char | AnyRun

fun gmatch :: "gtok list \<Rightarrow> string \<Rightarrow> bool" where
  "gmatch [] s = (s = [])"
| "gmatch (Lit c # ts) s = (case s of [] \<Rightarrow> False | d # s' \<Rightarrow> c = d \<and> gmatch ts s')"
| "gmatch (AnyRun # ts) s =
     (gmatch ts s \<or> (case s of [] \<Rightarrow> False | d # s' \<Rightarrow> d \<noteq> CHR 0x0A \<and> gmatch (AnyRun # ts) s'))"

definition plainChar :: "char \<Rightarrow> bool" where
  "plainChar c = (c \<in> set ''abcdefghijklmnopqrstuvwxyzABCDEFGHIJKLMNOPQRSTUVWXYZ0123456789 /_-'')"

fun gparse :: "string \<Rightarrow> gtok list option" where
  "gparse [] = Some []"
| "gparse (c # cs) =
     (if c = CHR ''.'' then
        (case cs of
           d # ds \<Rightarrow> (if d = CHR ''*'' then map_option (Cons AnyRun) (gparse ds) else None)
         | [] \<Rightarrow> None)
      else if plainChar c then map_option (Cons (Lit c)) (gparse cs)
      else None)"

definition globMatchString :: "string \<Rightarrow> string \<Rightarrow> bool option" where
  "globMatchString expr s =
     (if 2 \<le> length expr \<and> hd expr = CHR ''^'' \<and> last expr = CHR ''$''
      then map_option (\<lambda>ts. gmatch ts s) (gparse (butlast (tl expr)))
      else None)"

section \<open>Regular expressions of the path normalizer\<close>

text \<open>
  The normalizer's patterns are all anchored at both ends (\<open>^\<dots>$\<close>), so
  \<^verbatim>\<open>MatchString\<close> on a pattern (\<open>rexpMatch\<close> here) asks whether the whole token is in the language of the expression.
  Expressions are a datatype, matched by derivatives. Strings are byte strings; the
  character classes of the source are ASCII.
\<close>

datatype rexp = Zero | One | Sym "char \<Rightarrow> bool" | Alt rexp rexp | Seq rexp rexp | Star rexp

fun nullable :: "rexp \<Rightarrow> bool" where
  "nullable Zero = False"
| "nullable One = True"
| "nullable (Sym P) = False"
| "nullable (Alt r s) = (nullable r \<or> nullable s)"
| "nullable (Seq r s) = (nullable r \<and> nullable s)"
| "nullable (Star r) = True"

fun deriv :: "char \<Rightarrow> rexp \<Rightarrow> rexp" where
  "deriv c Zero = Zero"
| "deriv c One = Zero"
| "deriv c (Sym P) = (if P c then One else Zero)"
| "deriv c (Alt r s) = Alt (deriv c r) (deriv c s)"
| "deriv c (Seq r s) =
     (if nullable r then Alt (Seq (deriv c r) s) (deriv c s) else Seq (deriv c r) s)"
| "deriv c (Star r) = Seq (deriv c r) (Star r)"

definition rexpMatch :: "rexp \<Rightarrow> string \<Rightarrow> bool" where
  "rexpMatch r s = nullable (foldl (\<lambda>r c. deriv c r) r s)"

definition Chr :: "char \<Rightarrow> rexp" where
  "Chr c = Sym (\<lambda>d. d = c)"

definition Cls :: "string \<Rightarrow> rexp" where
  "Cls cs = Sym (\<lambda>d. d \<in> set cs)"

definition NotChr :: "char \<Rightarrow> rexp" where
  "NotChr c = Sym (\<lambda>d. d \<noteq> c)"

definition Lits :: "string \<Rightarrow> rexp" where
  "Lits s = foldr (\<lambda>c r. Seq (Chr c) r) s One"

definition Opt :: "rexp \<Rightarrow> rexp" where
  "Opt r = Alt r One"

definition Plus :: "rexp \<Rightarrow> rexp" where
  "Plus r = Seq r (Star r)"

fun Rep :: "nat \<Rightarrow> rexp \<Rightarrow> rexp" where
  "Rep 0 r = One"
| "Rep (Suc n) r = Seq r (Rep n r)"

definition AtLeast :: "nat \<Rightarrow> rexp \<Rightarrow> rexp" where
  "AtLeast n r = Seq (Rep n r) (Star r)"

definition OneOf :: "string list \<Rightarrow> rexp" where
  "OneOf ws = foldr (\<lambda>w r. Alt (Lits w) r) ws Zero"

definition digits :: string where "digits = ''0123456789''"
definition lowers :: string where "lowers = ''abcdefghijklmnopqrstuvwxyz''"
definition uppers :: string where "uppers = ''ABCDEFGHIJKLMNOPQRSTUVWXYZ''"
definition hexes :: string where "hexes = ''0123456789abcdef''"

definition reVersion :: rexp where
  "reVersion = Seq (Opt (Lits ''api-'')) (Seq (Chr CHR ''v'')
                 (Seq (Plus (Cls digits)) (Opt (Plus (Cls (lowers @ digits))))))"

definition reDateVersion :: rexp where
  "reDateVersion = Seq (Rep 4 (Cls digits)) (Seq (Chr CHR ''-'')
                     (Seq (Rep 2 (Cls digits)) (Seq (Chr CHR ''-'') (Rep 2 (Cls digits)))))"

definition reUUID :: rexp where
  "reUUID = Seq (Rep 8 (Cls hexes)) (Seq (Chr CHR ''-'')
           (Seq (Rep 4 (Cls hexes)) (Seq (Chr CHR ''-'')
           (Seq (Cls ''12345'') (Seq (Rep 3 (Cls hexes)) (Seq (Chr CHR ''-'')
           (Seq (Cls ''89ab'') (Seq (Rep 3 (Cls hexes)) (Seq (Chr CHR ''-'')
           (Rep 12 (Cls hexes)))))))))))"

definition reULID :: rexp where
  "reULID = Rep 26 (Cls ''0123456789ABCDEFGHJKMNPQRSTVWXYZ'')"

definition reKSUID :: rexp where
  "reKSUID = Rep 27 (Cls (digits @ uppers @ lowers))"

definition reMongoID :: rexp where
  "reMongoID = Rep 24 (Cls hexes)"

definition rePureDigits :: rexp where
  "rePureDigits = AtLeast 6 (Cls digits)"

definition reTimestamp :: rexp where
  "reTimestamp = Seq (Rep 10 (Cls digits)) (Opt (Rep 3 (Cls digits)))"

definition reHexyBlob :: rexp where
  "reHexyBlob = AtLeast 12 (Cls hexes)"

definition reResourceKey :: rexp where
  "reResourceKey = Seq (Plus (Cls (uppers @ lowers))) (Seq (Star (Cls ''-_''))
                     (Seq (Plus (Cls digits)) (Opt (Plus (Cls (uppers @ lowers @ digits @ ''-_''))))))"

definition reLocale :: rexp where
  "reLocale = Seq (Rep 2 (Cls lowers)) (Opt (Seq (Chr CHR ''-'') (Rep 2 (Cls uppers))))"

definition reTemplateVar :: rexp where
  "reTemplateVar = Seq (Lits ''{{.'') (Seq (Star (NotChr CHR ''}'')) (Lits ''}}''))"

definition keepList :: "rexp list" where
  "keepList =
     [Seq (Lits ''status'') (Rep 3 (Cls digits)),
      Lits ''http2'',
      Lits ''ipv6'',
      OneOf [''.well-known'', ''openid-configuration'', ''oauth2'', ''healthz'', ''readyz'',
             ''livez'', ''metrics'', ''search'', ''bulk'', ''export'', ''jwks''],
      OneOf [''json'', ''ndjson'', ''csv'', ''xml''],
      reLocale]"

definition apiPrefixes :: "string \<Rightarrow> bool" where
  "apiPrefixes token = (token = ''api'' \<or> token = ''rest'' \<or> token = ''graphql'')"

section \<open>String operations of the standard library\<close>

text \<open>
  Strings are byte strings. On a string of ASCII bytes, \<^verbatim>\<open>strings.ToLower\<close> lowers the
  letters \<open>A\<close>--\<open>Z\<close>, \<^verbatim>\<open>strings.ToUpper\<close> raises \<open>a\<close>--\<open>z\<close>, and \<^verbatim>\<open>strings.TrimSpace\<close>
  removes space, tab, line feed, vertical tab, form feed and carriage return from both
  ends. On a string with a byte of \<open>0x80\<close> or more the three functions follow Unicode
  (case tables, further white space, \<open>U+FFFD\<close> for invalid UTF-8); that behaviour is
  not reproduced here but taken as a parameter, the record \<open>uni\<close>.
\<close>

record UnicodeLib =
  unicode_ToLower :: "string \<Rightarrow> string"
  unicode_ToUpper :: "string \<Rightarrow> string"
  unicode_TrimSpace :: "string \<Rightarrow> string"

definition isASCII :: "string \<Rightarrow> bool" where
  "isASCII s = list_all (\<lambda>c. \<not> digit7 c) s"

definition lowerc :: "char \<Rightarrow> char" where
  "lowerc c = (case map_of (zip uppers lowers) c of Some l \<Rightarrow> l | None \<Rightarrow> c)"

definition upperc :: "char \<Rightarrow> char" where
  "upperc c = (case map_of (zip lowers uppers) c of Some u \<Rightarrow> u | None \<Rightarrow> c)"

definition ToLower :: "UnicodeLib \<Rightarrow> string \<Rightarrow> string" where
  "ToLower uni s = (if isASCII s then map lowerc s else unicode_ToLower uni s)"

definition ToUpper :: "UnicodeLib \<Rightarrow> string \<Rightarrow> string" where
  "ToUpper uni s = (if isASCII s then map upperc s else unicode_ToUpper uni s)"

definition isSpace :: "char \<Rightarrow> bool" where
  "isSpace c = (c \<in> set [CHR '' '', CHR 0x09, CHR 0x0A, CHR 0x0B, CHR 0x0C, CHR 0x0D])"

definition TrimSpace :: "UnicodeLib \<Rightarrow> string \<Rightarrow> string" where
  "TrimSpace uni s =
     (if isASCII s then rev (dropWhile isSpace (rev (dropWhile isSpace s)))
      else unicode_TrimSpace uni s)"

text \<open>\<^verbatim>\<open>if idx := strings.Index(path, c); idx != -1 { path = path[:idx] }\<close>\<close>

definition cutAt :: "char \<Rightarrow> string \<Rightarrow> string" where
  "cutAt c path = takeWhile (\<lambda>d. d \<noteq> c) path"

definition TrimSuffix_slash :: "string \<Rightarrow> string" where
  "TrimSuffix_slash path = (if path \<noteq> [] \<and> last path = CHR ''/'' then butlast path else path)"

fun Split :: "string \<Rightarrow> char \<Rightarrow> string list" where
  "Split [] sep = [[]]"
| "Split (c # cs) sep =
     (if c = sep then [] # Split cs sep
      else (case Split cs sep of p # ps \<Rightarrow> (c # p) # ps | [] \<Rightarrow> [[c]]))"

fun Join :: "string list \<Rightarrow> string \<Rightarrow> string" where
  "Join [] sep = []"
| "Join [x] sep = x"
| "Join (x # y # xs) sep = x @ sep @ Join (y # xs) sep"

definition ReplaceAll_slash :: "string \<Rightarrow> string" where
  "ReplaceAll_slash path = map (\<lambda>c. if c = CHR ''/'' then CHR ''_'' else c) path"

definition Trim_underscore :: "string \<Rightarrow> string" where
  "Trim_underscore s =
     rev (dropWhile (\<lambda>c. c = CHR ''_'') (rev (dropWhile (\<lambda>c. c = CHR ''_'') s)))"

text \<open>\<^verbatim>\<open>regexp.MustCompile(`_+`).ReplaceAllString(result, "_")\<close>\<close>

fun collapseUnderscores :: "string \<Rightarrow> string" where
  "collapseUnderscores (c # d # cs) =
     (if c = CHR ''_'' \<and> d = CHR ''_'' then collapseUnderscores (d # cs)
      else c # collapseUnderscores (d # cs))"
| "collapseUnderscores cs = cs"

definition LastIndexByte :: "string \<Rightarrow> char \<Rightarrow> int" where
  "LastIndexByte s c =
     (if c \<in> set s then int (length s) - 1 - int (length (takeWhile (\<lambda>d. d \<noteq> c) (rev s)))
      else - 1)"

section \<open>The token classifier\<close>

definition isHTTPMethod :: "string \<Rightarrow> bool" where
  "isHTTPMethod token =
     (token = ''get'' \<or> token = ''post'' \<or> token = ''put'' \<or>
      token = ''patch'' \<or> token = ''delete'' \<or> token = ''head'' \<or> token = ''options'')"

definition isIDLike :: "string \<Rightarrow> bool" where
  "isIDLike token =
     (rexpMatch reUUID token \<or> rexpMatch reULID token \<or> rexpMatch reKSUID token \<or>
      rexpMatch reMongoID token \<or> rexpMatch rePureDigits token \<or>
      rexpMatch reTimestamp token \<or> rexpMatch reHexyBlob token \<or>
      rexpMatch reResourceKey token)"

text \<open>
  The loop of \<^verbatim>\<open>looksLikeID\<close> over the characters, with its three variables
  \<open>digitCount\<close>, \<open>digitRuns\<close> and \<open>inDigitRun\<close>.
\<close>

fun countDigits :: "string \<Rightarrow> nat \<times> nat \<times> bool \<Rightarrow> nat \<times> nat \<times> bool" where
  "countDigits [] acc = acc"
| "countDigits (char # rest) (digitCount, digitRuns, inDigitRun) =
     (if char \<in> set digits then
        countDigits rest (digitCount + 1, (if \<not> inDigitRun then digitRuns + 1 else digitRuns), True)
      else countDigits rest (digitCount, digitRuns, False))"

definition looksLikeID :: "string \<Rightarrow> bool" where
  "looksLikeID token =
     (if length token < 6 then False
      else
       (case countDigits token (0, 0, False) of
          (digitCount, digitRuns, inDigitRun) \<Rightarrow>
            (let digitRatio = real digitCount / real (length token)
             in digitRatio \<ge> 0.4 \<or> digitRuns \<ge> 2)))"

definition trimExtIfAny :: "string \<Rightarrow> string" where
  "trimExtIfAny s =
     (let i = LastIndexByte s CHR ''.''
      in if i > 0 \<and> i \<ge> int (length s) - 6 then take (nat i) s else s)"

definition normalizeTemplateVariable :: "string \<Rightarrow> string" where
  "normalizeTemplateVariable token = (if rexpMatch reTemplateVar token then [] else token)"

text \<open>
  The body of the loop over the tokens: \<open>Some\<close> of the token appended to \<open>keptTokens\<close>, or
  \<open>None\<close> when the token is skipped.
\<close>

definition classifyToken :: "nat \<Rightarrow> string \<Rightarrow> string option" where
  "classifyToken i token0 =
     (let token = normalizeTemplateVariable token0 in
      if token = [] then None
      else if list_ex (\<lambda>keepPattern. rexpMatch keepPattern token) keepList then Some token
      else if token = ''me'' \<or> token = ''self'' \<or> token = ''current'' then Some token
      else if apiPrefixes token \<and> i \<le> 2 then None
      else if rexpMatch reVersion token \<or> rexpMatch reDateVersion token then None
      else if isHTTPMethod token then None
      else if isIDLike token then None
      else if length token \<ge> 6 \<and> looksLikeID token then None
      else Some token)"

fun classifyTokens :: "nat \<Rightarrow> string list \<Rightarrow> string list" where
  "classifyTokens i [] = []"
| "classifyTokens i (token # rest) =
     (case classifyToken i token of
        Some kept \<Rightarrow> kept # classifyTokens (Suc i) rest
      | None \<Rightarrow> classifyTokens (Suc i) rest)"

definition shapeTemplate :: "string list \<Rightarrow> string" where
  "shapeTemplate keptTokens =
     (if length keptTokens \<le> 3 then Join keptTokens ''_''
      else if length keptTokens \<ge> 3
        then keptTokens ! 0 @ ''_'' @ keptTokens ! 1 @ ''_'' @ keptTokens ! (length keptTokens - 1)
        else Join keptTokens ''_'')"

section \<open>The normalizer state and the cardinality controller\<close>

text \<open>
  The two maps of the state are association lists with one entry per key
  (\<open>AList.update\<close>), so that \<^verbatim>\<open>len\<close> is \<open>length\<close>. The lock is not modelled: calls run one
  after the other.
\<close>

record DPNConfig =
  dpn_MaxEndpoints :: int
  CacheSize :: int

record DPNState =
  cache :: "(string \<times> string) list"
  endpointCollisions :: "(string \<times> string) list"
  dpn_endpointCount :: int
  dpn_endpointsBucketed :: int
  dpn_config :: DPNConfig

text \<open>
  \<open>envVal\<close> is the value of \<^verbatim>\<open>VENOM_MAX_ENDPOINTS\<close> as \<^verbatim>\<open>strconv.Atoi\<close> reads it:
  \<open>None\<close> when the variable is unset, empty or not a number.
\<close>

definition getMaxEndpoints :: "int option \<Rightarrow> int" where
  "getMaxEndpoints envVal =
     (case envVal of Some v \<Rightarrow> (if v > 0 then v else 5000) | None \<Rightarrow> 5000)"

definition DefaultDPNConfig :: "int option \<Rightarrow> DPNConfig" where
  "DefaultDPNConfig envVal = \<lparr>dpn_MaxEndpoints = getMaxEndpoints envVal, CacheSize = 8192\<rparr>"

definition NewDPNState :: "DPNConfig \<Rightarrow> DPNState" where
  "NewDPNState cfg =
     \<lparr>cache = [], endpointCollisions = [], dpn_endpointCount = 0, dpn_endpointsBucketed = 0,
      dpn_config = cfg\<rparr>"

definition handleCollisionsAndCardinalityWithState ::
  "(string \<Rightarrow> string) \<Rightarrow> string \<Rightarrow> string \<Rightarrow> DPNState \<Rightarrow> string \<times> DPNState" where
  "handleCollisionsAndCardinalityWithState md5hex normalized original state =
     (if dpn_endpointCount state \<ge> dpn_MaxEndpoints (dpn_config state) then
        (''other'', state\<lparr>dpn_endpointsBucketed := dpn_endpointsBucketed state + 1\<rparr>)
      else
       (case map_of (endpointCollisions state) normalized of
          Some existingOriginal \<Rightarrow>
            (if existingOriginal \<noteq> original then
               (let hash = take 8 (md5hex original);
                    normalizedWithHash = normalized @ ''_'' @ hash
                in (normalizedWithHash,
                    state\<lparr>endpointCollisions :=
                            AList.update normalizedWithHash original (endpointCollisions state),
                          dpn_endpointCount := dpn_endpointCount state + 1\<rparr>))
             else
               (normalized,
                state\<lparr>endpointCollisions :=
                        AList.update normalized original (endpointCollisions state),
                      dpn_endpointCount := dpn_endpointCount state + 1\<rparr>))
        | None \<Rightarrow>
            (normalized,
             state\<lparr>endpointCollisions :=
                     AList.update normalized original (endpointCollisions state),
                   dpn_endpointCount := dpn_endpointCount state + 1\<rparr>)))"

section \<open>The path normalizer\<close>

definition stripPath :: "UnicodeLib \<Rightarrow> string \<Rightarrow> string" where
  "stripPath uni path0 =
     (let path = ToLower uni path0;
          path = cutAt CHR ''?'' path;
          path = cutAt CHR ''#'' path;
          path = cutAt CHR '';'' path
      in TrimSuffix_slash path)"

definition tokenize :: "UnicodeLib \<Rightarrow> string \<Rightarrow> string list" where
  "tokenize uni path = filter (\<lambda>part. part \<noteq> []) (map (TrimSpace uni) (Split path CHR ''/''))"

text \<open>The template computed from the stripped path, before the cardinality controller.\<close>

definition templateOf :: "UnicodeLib \<Rightarrow> string \<Rightarrow> string" where
  "templateOf uni path =
     (let keptTokens = classifyTokens 0 (tokenize uni path);
          result = shapeTemplate keptTokens;
          result = (if length keptTokens > 0 then trimExtIfAny result else result);
          result = collapseUnderscores result;
          result = Trim_underscore result;
          result = (if length result > 80 then take 80 result else result)
      in if result = [] then Trim_underscore (ReplaceAll_slash path) else result)"

definition ExtractSimpleEndpointWithState ::
  "(string \<Rightarrow> string) \<Rightarrow> UnicodeLib \<Rightarrow> string \<Rightarrow> DPNState \<Rightarrow> string \<times> DPNState" where
  "ExtractSimpleEndpointWithState md5hex uni path0 state =
     (case map_of (cache state) path0 of
        Some cached \<Rightarrow> (cached, state)
      | None \<Rightarrow>
         (let path = stripPath uni path0 in
          if path = [] \<or> path = ''/'' then (''root'', state)
          else if length (tokenize uni path) = 0 then (''root'', state)
          else
           (case handleCollisionsAndCardinalityWithState md5hex (templateOf uni path) path state of
              (result, state1) \<Rightarrow>
                (let state2 = (if int (length (cache state1)) \<ge> CacheSize (dpn_config state1)
                               then state1\<lparr>cache := []\<rparr> else state1)
                 in (result, state2\<lparr>cache := AList.update path result (cache state2)\<rparr>)))))"

definition ExtractSimpleEndpoint ::
  "(string \<Rightarrow> string) \<Rightarrow> UnicodeLib \<Rightarrow> int option \<Rightarrow> string \<Rightarrow> string" where
  "ExtractSimpleEndpoint md5hex uni envVal path =
     fst (ExtractSimpleEndpointWithState md5hex uni path (NewDPNState (DefaultDPNConfig envVal)))"

definition ExtractSimpleEndpointWithMethodAndState ::
  "(string \<Rightarrow> string) \<Rightarrow> UnicodeLib \<Rightarrow> string \<Rightarrow> string \<Rightarrow> DPNState
     \<Rightarrow> string \<times> DPNState" where
  "ExtractSimpleEndpointWithMethodAndState md5hex uni path method0 state =
     (let method = ToUpper uni method0;
          method = (if method = [] then ''GET'' else method)
      in case ExtractSimpleEndpointWithState md5hex uni path state of
           (endpoint, state1) \<Rightarrow> (method @ ''_'' @ endpoint, state1))"

definition trend_example_target :: Metric where
  "trend_example_target = \<lparr>Type = ''trend'',
     Values = [''count'' \<mapsto> VFloat64 2, ''avg'' \<mapsto> VFloat64 100, ''p(95)'' \<mapsto> VFloat64 140]\<rparr>"

definition trend_example_source :: Metric where
  "trend_example_source = \<lparr>Type = ''trend'',
     Values = [''count'' \<mapsto> VFloat64 3, ''avg'' \<mapsto> VFloat64 200, ''p(95)'' \<mapsto> VFloat64 280]\<rparr>"

definition trend_four_target :: Metric where
  "trend_four_target = \<lparr>Type = ''trend'',
     Values = [''count'' \<mapsto> VFloat64 1, ''min'' \<mapsto> VFloat64 5, ''max'' \<mapsto> VFloat64 50,
               ''avg'' \<mapsto> VFloat64 20, ''p(50)'' \<mapsto> VFloat64 10, ''p(90)'' \<mapsto> VFloat64 20,
               ''p(95)'' \<mapsto> VFloat64 30, ''p(99)'' \<mapsto> VFloat64 40]\<rparr>"

definition trend_four_source :: Metric where
  "trend_four_source = \<lparr>Type = ''trend'',
     Values = [''count'' \<mapsto> VFloat64 3, ''min'' \<mapsto> VFloat64 9, ''max'' \<mapsto> VFloat64 70,
               ''avg'' \<mapsto> VFloat64 40, ''p(50)'' \<mapsto> VFloat64 30, ''p(90)'' \<mapsto> VFloat64 40,
               ''p(95)'' \<mapsto> VFloat64 50]\<rparr>"

text \<open>
  The rate-value relation: \<open>value\<close> is \<open>passes / (passes + fails)\<close> when that
  denominator is positive, and \<open>0\<close> (or absent, read as \<open>0\<close>) when it is \<open>0\<close>.
\<close>

definition rate_value_ok :: "Metric \<Rightarrow> bool" where
  "rate_value_ok m =
     (let passes = getFloat64 (Values m) ''passes'' 0;
          fails = getFloat64 (Values m) ''fails'' 0;
          v = getFloat64 (Values m) ''value'' 0
      in (passes + fails > 0 \<longrightarrow> v = passes / (passes + fails)) \<and>
         (passes + fails = 0 \<longrightarrow> v = 0))"

definition rate_example_zero :: Metric where
  "rate_example_zero = \<lparr>Type = ''rate'',
     Values = [''passes'' \<mapsto> VFloat64 0, ''fails'' \<mapsto> VFloat64 0, ''value'' \<mapsto> VFloat64 0.5]\<rparr>"

definition rate_example_target :: Metric where
  "rate_example_target = \<lparr>Type = ''rate'',
     Values = [''passes'' \<mapsto> VFloat64 8, ''fails'' \<mapsto> VFloat64 2, ''value'' \<mapsto> VFloat64 0.8]\<rparr>"

definition rate_example_source :: Metric where
  "rate_example_source = \<lparr>Type = ''rate'',
     Values = [''passes'' \<mapsto> VFloat64 9, ''fails'' \<mapsto> VFloat64 1, ''value'' \<mapsto> VFloat64 0.9]\<rparr>"

text \<open>
  Auxiliary notions for the cardinality properties: the endpoint entries of a list of
  metrics (the ones the metric loop does not skip), and the keys of an aggregate that
  count against the ceiling (neither the overflow bucket nor a global metric).
\<close>

definition endpointOccurrences :: "(string \<times> Metric) list \<Rightarrow> nat" where
  "endpointOccurrences entries = length (filter (\<lambda>entry. \<not> isGlobalMetric (fst entry)) entries)"

definition endpointKeys :: "(string \<rightharpoonup> Metric) \<Rightarrow> string set" where
  "endpointKeys metrics = {k \<in> dom metrics. k \<noteq> ''other'' \<and> \<not> isGlobalMetric k}"

definition trend1 :: Metric where
  "trend1 = \<lparr>Type = ''trend'', Values = [''count'' \<mapsto> VFloat64 1, ''avg'' \<mapsto> VFloat64 100]\<rparr>"

definition config2 :: Config where
  "config2 = \<lparr>MaxEndpoints = 2, NoBucket = False, MergePercentiles = ''weighted''\<rparr>"

text \<open>
  The invariant of the metric loop: the keys recorded outside the overflow bucket are
  at most as many as the budget spent, and the budget spent is within the ceiling.
\<close>

definition agg_inv :: "Config \<Rightarrow> AggState \<Rightarrow> bool" where
  "agg_inv config st \<longleftrightarrow>
     finite (dom (result_Metrics st)) \<and>
     int (card {k \<in> dom (result_Metrics st). k \<noteq> ''other''}) \<le> endpointCount st \<and>
     endpointCount st \<le> MaxEndpoints config"

definition users_metric :: Metric where
  "users_metric = \<lparr>Type = ''trend'',
     Values = [''p(95)'' \<mapsto> VFloat64 400, ''avg'' \<mapsto> VFloat64 120, ''count'' \<mapsto> VInt64 150]\<rparr>"

definition slow_metric :: Metric where
  "slow_metric = \<lparr>Type = ''trend'',
     Values = [''p(95)'' \<mapsto> VFloat64 600, ''count'' \<mapsto> VInt64 50]\<rparr>"

definition busy_metric :: Metric where
  "busy_metric = \<lparr>Type = ''trend'',
     Values = [''p(95)'' \<mapsto> VFloat64 600, ''count'' \<mapsto> VFloat64 150]\<rparr>"


definition config_min0 :: ThresholdConfig where
  "config_min0 = DefaultThresholdConfig
     \<lparr>Options := \<lparr>TolerancePercent = 10, opt_MinSamples = 0, SoftFail = False\<rparr>\<rparr>"

definition config_override :: ThresholdConfig where
  "config_override = DefaultThresholdConfig
     \<lparr>Endpoints := [''GET /slow'' \<mapsto> noThresholds\<lparr>MinSamples := Some 200\<rparr>]\<rparr>"

definition groups_ab :: "(string \<times> ThresholdValues) list" where
  "groups_ab =
     [(''a*'', noThresholds\<lparr>P95 := Some \<lparr>d_Value = 100 * Millisecond, d_Tolerance = None\<rparr>\<rparr>),
      (''*b'', noThresholds\<lparr>P95 := Some \<lparr>d_Value = 200 * Millisecond, d_Tolerance = None\<rparr>\<rparr>)]"

definition config_groups :: "(string \<times> ThresholdValues) list \<Rightarrow> ThresholdConfig" where
  "config_groups gs =
     \<lparr>Defaults = noThresholds, Groups = gs, Endpoints = Map.empty,
      Options = \<lparr>TolerancePercent = 10, opt_MinSamples = 100, SoftFail = False\<rparr>\<rparr>"



text \<open>
  A stand-in for the hash in the examples, which never reach it (a fresh state has no
  recorded key to collide with).
\<close>

definition noHash :: "string \<Rightarrow> string" where
  "noHash s = []"

text \<open>
  A stand-in for the Unicode behaviour of package \<open>strings\<close> in the examples, whose
  strings are ASCII and never reach it.
\<close>

definition noUnicode :: UnicodeLib where
  "noUnicode =
     \<lparr>unicode_ToLower = (\<lambda>s. s), unicode_ToUpper = (\<lambda>s. s), unicode_TrimSpace = (\<lambda>s. s)\<rparr>"

text \<open>
  Characters that a normalized key never contains: the separators the normalizer cuts at
  and upper-case letters.
\<close>

definition special :: "char \<Rightarrow> bool" where
  "special c = (c \<in> set ''/?#;'' \<or> c \<in> set uppers)"

text \<open>
  A key is settled when the later stages of the normalizer leave it alone: it is not
  empty, has no white space at either end, no extension for \<open>trimExtIfAny\<close> to cut, no
  run of underscores, no underscore at either end, and at most 80 bytes.
\<close>

definition settled :: "UnicodeLib \<Rightarrow> string \<Rightarrow> bool" where
  "settled uni r =
     (r \<noteq> [] \<and> TrimSpace uni r = r \<and> trimExtIfAny r = r \<and> collapseUnderscores r = r \<and>
      Trim_underscore r = r \<and> length r \<le> 80)"

text \<open>
  The calls a client can make on a normalizer state, and the state after a call. The
  invariant of the cardinality controller: the recorded keys are at most as many as the
  budget spent, and the budget spent is within the ceiling.
\<close>

datatype dpn_call =
  CallExtract string
| CallExtractWithMethod string string
| CallHandleCollisions string string

fun runCall :: "(string \<Rightarrow> string) \<Rightarrow> UnicodeLib \<Rightarrow> DPNState \<Rightarrow> dpn_call \<Rightarrow> DPNState" where
  "runCall md5hex uni state (CallExtract path) =
     snd (ExtractSimpleEndpointWithState md5hex uni path state)"
| "runCall md5hex uni state (CallExtractWithMethod path method) =
     snd (ExtractSimpleEndpointWithMethodAndState md5hex uni path method state)"
| "runCall md5hex uni state (CallHandleCollisions normalized original) =
     snd (handleCollisionsAndCardinalityWithState md5hex normalized original state)"

definition dpn_inv :: "DPNConfig \<Rightarrow> DPNState \<Rightarrow> bool" where
  "dpn_inv cfg state \<longleftrightarrow>
     dpn_config state = cfg \<and>
     int (length (endpointCollisions state)) \<le> dpn_endpointCount state \<and>
     dpn_endpointCount state \<le> dpn_MaxEndpoints cfg"

definition trendOf :: "real \<Rightarrow> Metric" where
  "trendOf avg = \<lparr>Type = ''trend'', Values = [''count'' \<mapsto> VFloat64 1, ''avg'' \<mapsto> VFloat64 avg]\<rparr>"

definition dpn_config1 :: DPNConfig where
  "dpn_config1 = \<lparr>dpn_MaxEndpoints = 1, CacheSize = 8192\<rparr>"

section \<open>Facts about the metric loop of the aggregator\<close>

lemma storeMetric_fields:
  "endpointCount (storeMetric config n m st) = endpointCount st"
  "endpointMap (storeMetric config n m st) = endpointMap st"
  "endpointsBucketed (storeMetric config n m st) = endpointsBucketed st"
  "dom (result_Metrics (storeMetric config n m st)) = insert n (dom (result_Metrics st))"
  by (auto simp: storeMetric_def split: option.splits)

lemma aggregateMetric_global:
  "isGlobalMetric name \<Longrightarrow> aggregateMetric md5hex config st (name, m) = st"
  by (simp add: aggregateMetric_def)

lemma aggregateMetric_over:
  "\<not> isGlobalMetric name \<Longrightarrow> MaxEndpoints config \<le> endpointCount st \<Longrightarrow>
   aggregateMetric md5hex config st (name, m) =
     (if NoBucket config then st
      else storeMetric config ''other'' m (st\<lparr>endpointsBucketed := endpointsBucketed st + 1\<rparr>))"
  by (simp add: aggregateMetric_def)

lemma aggregateMetric_under:
  "\<not> isGlobalMetric name \<Longrightarrow> endpointCount st < MaxEndpoints config \<Longrightarrow>
   \<exists>key. aggregateMetric md5hex config st (name, m) =
     storeMetric config key m
       (st\<lparr>endpointMap := (endpointMap st)(key \<mapsto> name), endpointCount := endpointCount st + 1\<rparr>)"
  by (simp add: aggregateMetric_def Let_def) (rule exI, rule refl)

lemma aggregateMetric_count:
  "endpointCount (aggregateMetric md5hex config st entry) =
     (if \<not> isGlobalMetric (fst entry) \<and> endpointCount st < MaxEndpoints config
      then endpointCount st + 1 else endpointCount st)"
  by (simp add: aggregateMetric_def Let_def storeMetric_fields)

lemma foldl_aggregateMetric_count:
  "endpointCount st \<le> MaxEndpoints config \<Longrightarrow>
   endpointCount (foldl (aggregateMetric md5hex config) st entries) =
     min (MaxEndpoints config) (endpointCount st + int (endpointOccurrences entries))"
proof (induction entries arbitrary: st)
  case Nil
  then show ?case by (simp add: endpointOccurrences_def)
next
  case (Cons e es)
  let ?st' = "aggregateMetric md5hex config st e"
  have le: "endpointCount ?st' \<le> MaxEndpoints config"
    using Cons.prems by (simp add: aggregateMetric_count)
  show ?case
    using Cons.IH [OF le] Cons.prems
    by (simp add: aggregateMetric_count endpointOccurrences_def algebra_simps)
qed

lemma foldl_aggregateSnapshot:
  "foldl (aggregateSnapshot md5hex config) st metricsList =
   foldl (aggregateMetric md5hex config) st (concat metricsList)"
  by (induction metricsList arbitrary: st) (simp_all add: aggregateSnapshot_def)

lemma card_insert_le_Suc: "finite A \<Longrightarrow> card (insert x A) \<le> Suc (card A)"
  by (simp add: card_insert_if)

lemma other_keys_insert_other:
  "{k \<in> insert ''other'' A. k \<noteq> ''other''} = {k \<in> A. k \<noteq> ''other''}"
  by auto

lemma other_keys_insert_le:
  assumes "finite A"
  shows "card {k \<in> insert x A. k \<noteq> ''other''} \<le> Suc (card {k \<in> A. k \<noteq> ''other''})"
proof -
  have "{k \<in> insert x A. k \<noteq> ''other''} \<subseteq> insert x {k \<in> A. k \<noteq> ''other''}" by auto
  moreover have fin: "finite {k \<in> A. k \<noteq> ''other''}" using assms by simp
  ultimately have "card {k \<in> insert x A. k \<noteq> ''other''} \<le> card (insert x {k \<in> A. k \<noteq> ''other''})"
    by (intro card_mono) simp_all
  also have "\<dots> \<le> Suc (card {k \<in> A. k \<noteq> ''other''})"
    by (rule card_insert_le_Suc [OF fin])
  finally show ?thesis .
qed

lemma agg_inv_step:
  assumes "agg_inv config st"
  shows "agg_inv config (aggregateMetric md5hex config st entry)"
proof -
  obtain name m where e: "entry = (name, m)" by (cases entry)
  from assms have fin: "finite (dom (result_Metrics st))"
    and cnt: "int (card {k \<in> dom (result_Metrics st). k \<noteq> ''other''}) \<le> endpointCount st"
    and le: "endpointCount st \<le> MaxEndpoints config"
    by (simp_all add: agg_inv_def)
  consider (g) "isGlobalMetric name"
    | (o) "\<not> isGlobalMetric name" "MaxEndpoints config \<le> endpointCount st"
    | (u) "\<not> isGlobalMetric name" "endpointCount st < MaxEndpoints config"
    by linarith
  then show ?thesis
  proof cases
    case g
    then show ?thesis using assms e by (simp add: aggregateMetric_global)
  next
    case o
    show ?thesis
    proof (cases "NoBucket config")
      case True
      with o assms show ?thesis unfolding e by (simp add: aggregateMetric_over)
    next
      case False
      let ?st' = "storeMetric config ''other'' m (st\<lparr>endpointsBucketed := endpointsBucketed st + 1\<rparr>)"
      have st': "aggregateMetric md5hex config st (name, m) = ?st'"
        using o False by (simp add: aggregateMetric_over)
      have d: "dom (result_Metrics ?st') = insert ''other'' (dom (result_Metrics st))"
        by (simp add: storeMetric_fields)
      have "{k \<in> dom (result_Metrics ?st'). k \<noteq> ''other''}
              = {k \<in> dom (result_Metrics st). k \<noteq> ''other''}"
        unfolding d by (rule other_keys_insert_other)
      moreover have "endpointCount ?st' = endpointCount st"
        by (simp add: storeMetric_fields)
      moreover have "finite (dom (result_Metrics ?st'))"
        unfolding d using fin by simp
      ultimately show ?thesis
        unfolding e st' agg_inv_def using cnt le by simp
    qed
  next
    case u
    from aggregateMetric_under [OF u, of md5hex m]
    obtain key where k: "aggregateMetric md5hex config st (name, m) =
       storeMetric config key m
         (st\<lparr>endpointMap := (endpointMap st)(key \<mapsto> name), endpointCount := endpointCount st + 1\<rparr>)"
      by blast
    have "int (card {k \<in> insert key (dom (result_Metrics st)). k \<noteq> ''other''})
            \<le> endpointCount st + 1"
      using other_keys_insert_le [OF fin, of key] cnt by linarith
    then show ?thesis
      using fin u unfolding e k agg_inv_def
      by (simp add: storeMetric_fields)
  qed
qed

lemma agg_inv_foldl:
  "agg_inv config st \<Longrightarrow> agg_inv config (foldl (aggregateMetric md5hex config) st entries)"
  by (induction entries arbitrary: st) (simp_all add: agg_inv_step)

lemma agg_inv_initial: "0 \<le> MaxEndpoints config \<Longrightarrow> agg_inv config initialAggState"
  by (simp add: agg_inv_def initialAggState_def)

lemma addGlobalMetric_dom:
  "\<forall>k \<in> dom g. isGlobalMetric k \<Longrightarrow> finite (dom g) \<Longrightarrow>
   (\<forall>k \<in> dom (addGlobalMetric g entry). isGlobalMetric k) \<and> finite (dom (addGlobalMetric g entry))"
  by (auto simp: addGlobalMetric_def Let_def split: option.splits if_splits)

lemma foldl_addGlobalMetric_dom:
  "\<forall>k \<in> dom g. isGlobalMetric k \<Longrightarrow> finite (dom g) \<Longrightarrow>
   (\<forall>k \<in> dom (foldl addGlobalMetric g entries). isGlobalMetric k)
   \<and> finite (dom (foldl addGlobalMetric g entries))"
proof (induction entries arbitrary: g)
  case Nil
  then show ?case by simp
next
  case (Cons e es)
  from addGlobalMetric_dom [OF Cons.prems, of e]
  show ?case using Cons.IH [of "addGlobalMetric g e"] by simp
qed

lemma globals_dom:
  "\<forall>k \<in> dom g. isGlobalMetric k \<Longrightarrow> finite (dom g) \<Longrightarrow>
   (\<forall>k \<in> dom (foldl (\<lambda>g metrics. foldl addGlobalMetric g metrics) g metricsList). isGlobalMetric k)
   \<and> finite (dom (foldl (\<lambda>g metrics. foldl addGlobalMetric g metrics) g metricsList))"
proof (induction metricsList arbitrary: g)
  case Nil
  then show ?case by simp
next
  case (Cons ms mss)
  from foldl_addGlobalMetric_dom [OF Cons.prems, of ms]
  show ?case using Cons.IH [of "foldl addGlobalMetric g ms"] by simp
qed

lemma addGlobalMetrics_keys:
  "finite (dom result) \<Longrightarrow>
   finite (dom (addGlobalMetrics result metricsList)) \<and>
   endpointKeys (addGlobalMetrics result metricsList) \<subseteq> {k \<in> dom result. k \<noteq> ''other''}"
  using globals_dom [of Map.empty metricsList]
  by (auto simp: addGlobalMetrics_def Let_def endpointKeys_def)

lemma getFloat64_cong: "tv k = tv' k \<Longrightarrow> getFloat64 tv k d = getFloat64 tv' k d"
  by (simp add: getFloat64_def)

lemma getFloat64_upd_other: "k \<noteq> k' \<Longrightarrow> getFloat64 (tv(k' \<mapsto> v)) k d = getFloat64 tv k d"
  by (simp add: getFloat64_def)

lemma foldl_mergePercentile:
  "distinct ps \<Longrightarrow>
   foldl (mergePercentile sv nt ns n) tv ps k =
     (if k \<in> set ps \<and> tv k \<noteq> None \<and> sv k \<noteq> None
      then Some (VFloat64 ((getFloat64 tv k 0 * nt + getFloat64 sv k 0 * ns) / n))
      else tv k)"
proof (induction ps arbitrary: tv)
  case Nil
  then show ?case by simp
next
  case (Cons p ps)
  let ?tv' = "mergePercentile sv nt ns n tv p"
  have other: "k \<noteq> p \<Longrightarrow> ?tv' k = tv k"
    by (simp add: mergePercentile_def Let_def)
  have same: "?tv' p = (if tv p \<noteq> None \<and> sv p \<noteq> None
      then Some (VFloat64 ((getFloat64 tv p 0 * nt + getFloat64 sv p 0 * ns) / n)) else tv p)"
    by (simp add: mergePercentile_def Let_def)
  from Cons.prems have d: "distinct ps" and np: "p \<notin> set ps" by simp_all
  have step: "foldl (mergePercentile sv nt ns n) tv (p # ps) k =
     (if k \<in> set ps \<and> ?tv' k \<noteq> None \<and> sv k \<noteq> None
      then Some (VFloat64 ((getFloat64 ?tv' k 0 * nt + getFloat64 sv k 0 * ns) / n))
      else ?tv' k)"
    using Cons.IH [OF d, of ?tv'] by simp
  show ?case
  proof (cases "k = p")
    case True
    with np step same show ?thesis by simp
  next
    case False
    with other have "?tv' k = tv k" by simp
    moreover from this have "getFloat64 ?tv' k 0 = getFloat64 tv k 0"
      by (rule getFloat64_cong)
    ultimately show ?thesis using step False by auto
  qed
qed

lemma percentiles_distinct: "distinct percentiles"
  by (simp add: percentiles_def)

lemma percentiles_not_stat:
  "p \<in> set percentiles \<Longrightarrow> p \<noteq> ''count'' \<and> p \<noteq> ''min'' \<and> p \<noteq> ''max'' \<and> p \<noteq> ''avg'' \<and> p \<noteq> ''rate''"
  by (auto simp: percentiles_def)

lemma stat_not_percentile:
  "''count'' \<notin> set percentiles" "''min'' \<notin> set percentiles" "''max'' \<notin> set percentiles"
  "''avg'' \<notin> set percentiles"
  by (simp_all add: percentiles_def)

lemma mergeTrendMetric_nonzero:
  assumes "getFloat64 (Values t) ''count'' 0 + getFloat64 (Values s) ''count'' 0 \<noteq> 0"
  shows "Values (mergeTrendMetric t s strategy) =
    (let targetValues = Values t; sourceValues = Values s;
         targetCount = getFloat64 targetValues ''count'' 0;
         sourceCount = getFloat64 sourceValues ''count'' 0;
         totalCount = targetCount + sourceCount;
         tv4 = targetValues(''count'' \<mapsto> VFloat64 totalCount,
                 ''min'' \<mapsto> VFloat64 (min (getFloat64 targetValues ''min'' MaxFloat64)
                                           (getFloat64 sourceValues ''min'' MaxFloat64)),
                 ''max'' \<mapsto> VFloat64 (max (getFloat64 targetValues ''max'' 0)
                                           (getFloat64 sourceValues ''max'' 0)),
                 ''avg'' \<mapsto> VFloat64 ((getFloat64 targetValues ''avg'' 0 * targetCount
                                      + getFloat64 sourceValues ''avg'' 0 * sourceCount) / totalCount));
         tv5 = foldl (mergePercentile sourceValues targetCount sourceCount totalCount) tv4 percentiles
     in if totalCount > 0
        then tv5(''rate'' \<mapsto> VFloat64 (totalCount / getFloat64 tv5 ''duration'' 1)) else tv5)"
proof -
  have a: "getFloat64 ((Values t)(''count'' \<mapsto> c)) ''min'' d = getFloat64 (Values t) ''min'' d" for c d
    by (rule getFloat64_upd_other) simp
  have b: "getFloat64 ((Values t)(''count'' \<mapsto> c, ''min'' \<mapsto> m)) ''max'' d = getFloat64 (Values t) ''max'' d" for c m d
    by (simp add: getFloat64_def)
  have c: "getFloat64 ((Values t)(''count'' \<mapsto> c, ''min'' \<mapsto> m, ''max'' \<mapsto> x)) ''avg'' d
            = getFloat64 (Values t) ''avg'' d" for c m x d
    by (simp add: getFloat64_def)
  show ?thesis
    using assms unfolding mergeTrendMetric_def Let_def a b c by simp
qed

text \<open>
  Claim C1 (weighted trend merge). For two metrics of kind trend with sample counts
  \<open>n_t\<close> and \<open>n_s\<close> and \<open>n = n_t + n_s\<close>: if \<open>n = 0\<close> the merge returns the target
  unchanged; otherwise the merged target has \<open>count = n\<close>, \<open>min\<close> the smaller and
  \<open>max\<close> the larger of the two sides, \<open>avg\<close> the count-weighted mean, each of the keys
  \<open>p(50)\<close>, \<open>p(90)\<close>, \<open>p(95)\<close>, \<open>p(99)\<close> that is present on both sides the count-weighted
  mean of the two, and each of them that is missing on either side keeps the target's
  entry (absent stays absent, nothing is imported from the source).
  Absent statistics are read with the defaults of \<^verbatim>\<open>getFloat64\<close>
  (\<open>MaxFloat64\<close> for \<open>min\<close>, \<open>0\<close> otherwise).
\<close>

theorem mergeTrend_weighted:
  assumes "Type t = ''trend''" and "Type s = ''trend''"
  shows "let n_t = getFloat64 (Values t) ''count'' 0;
             n_s = getFloat64 (Values s) ''count'' 0;
             n = n_t + n_s;
             r = mergeMetric t s strategy
         in (n = 0 \<longrightarrow> r = t) \<and>
            (n \<noteq> 0 \<longrightarrow>
               Values r ''count'' = Some (VFloat64 n) \<and>
               Values r ''min'' = Some (VFloat64 (min (getFloat64 (Values t) ''min'' MaxFloat64)
                                                    (getFloat64 (Values s) ''min'' MaxFloat64))) \<and>
               Values r ''max'' = Some (VFloat64 (max (getFloat64 (Values t) ''max'' 0)
                                                    (getFloat64 (Values s) ''max'' 0))) \<and>
               Values r ''avg'' = Some (VFloat64 ((getFloat64 (Values t) ''avg'' 0 * n_t
                                                   + getFloat64 (Values s) ''avg'' 0 * n_s) / n)) \<and>
               (\<forall>p \<in> {''p(50)'', ''p(90)'', ''p(95)'', ''p(99)''}.
                  (Values t p \<noteq> None \<and> Values s p \<noteq> None \<longrightarrow>
                     Values r p = Some (VFloat64 ((getFloat64 (Values t) p 0 * n_t
                                                  + getFloat64 (Values s) p 0 * n_s) / n))) \<and>
                  (Values t p = None \<or> Values s p = None \<longrightarrow> Values r p = Values t p)))"
proof -
  let ?nt = "getFloat64 (Values t) ''count'' 0"
  let ?ns = "getFloat64 (Values s) ''count'' 0"
  let ?r = "mergeMetric t s strategy"
  have ps: "set percentiles = {''p(50)'', ''p(90)'', ''p(95)'', ''p(99)''}"
    by (simp add: percentiles_def)
  have disp: "?r = mergeTrendMetric t s strategy"
    using assms by (simp add: mergeMetric_def)
  have zero: "?nt + ?ns = 0 \<Longrightarrow> ?r = t"
    unfolding disp by (simp add: mergeTrendMetric_def Let_def)
  {
    assume nz: "?nt + ?ns \<noteq> 0"
    note V = mergeTrendMetric_nonzero [OF nz, of strategy, unfolded Let_def, folded disp]
    have k1: "Values ?r ''count'' = Some (VFloat64 (?nt + ?ns))"
      unfolding V by (simp add: foldl_mergePercentile percentiles_distinct stat_not_percentile)
    have k2: "Values ?r ''min'' = Some (VFloat64 (min (getFloat64 (Values t) ''min'' MaxFloat64)
                                                    (getFloat64 (Values s) ''min'' MaxFloat64)))"
      unfolding V by (simp add: foldl_mergePercentile percentiles_distinct stat_not_percentile)
    have k3: "Values ?r ''max'' = Some (VFloat64 (max (getFloat64 (Values t) ''max'' 0)
                                                    (getFloat64 (Values s) ''max'' 0)))"
      unfolding V by (simp add: foldl_mergePercentile percentiles_distinct stat_not_percentile)
    have k4: "Values ?r ''avg'' = Some (VFloat64 ((getFloat64 (Values t) ''avg'' 0 * ?nt
                                                   + getFloat64 (Values s) ''avg'' 0 * ?ns) / (?nt + ?ns)))"
      unfolding V by (simp add: foldl_mergePercentile percentiles_distinct stat_not_percentile)
    have k5: "(Values t p \<noteq> None \<and> Values s p \<noteq> None \<longrightarrow>
                 Values ?r p = Some (VFloat64 ((getFloat64 (Values t) p 0 * ?nt
                                                  + getFloat64 (Values s) p 0 * ?ns) / (?nt + ?ns)))) \<and>
              (Values t p = None \<or> Values s p = None \<longrightarrow> Values ?r p = Values t p)"
      if p': "p \<in> {''p(50)'', ''p(90)'', ''p(95)'', ''p(99)''}" for p
    proof -
      from p' ps have p: "p \<in> set percentiles" by simp
      from percentiles_not_stat [OF p]
      have ne: "p \<noteq> ''count''" "p \<noteq> ''min''" "p \<noteq> ''max''" "p \<noteq> ''avg''" "p \<noteq> ''rate''"
        by simp_all
      show ?thesis
        unfolding V using ne p
        by (auto simp: foldl_mergePercentile percentiles_distinct getFloat64_upd_other)
    qed
    note k1 k2 k3 k4 k5
  }
  with zero show ?thesis unfolding Let_def by blast
qed

text \<open>
  The example of the specification: \<open>{count:2, avg:100, p(95):140}\<close> merged with
  \<open>{count:3, avg:200, p(95):280}\<close> gives \<open>count 5\<close>, \<open>avg 160\<close>, \<open>p(95) 224\<close>, and
  \<open>p(50)\<close>, absent on both sides, stays absent. A second pair carries all statistics:
  \<open>p(50)\<close>, \<open>p(90)\<close> and \<open>p(95)\<close> are on both sides and are merged with weights \<open>1\<close> and
  \<open>3\<close>; \<open>p(99)\<close> is on the target only and keeps the target's value.
\<close>

theorem mergeTrend_weighted_witness:
  "Type trend_example_target = ''trend'' \<and> Type trend_example_source = ''trend'' \<and>
   Values (mergeMetric trend_example_target trend_example_source ''weighted'') ''count''
     = Some (VFloat64 5) \<and>
   Values (mergeMetric trend_example_target trend_example_source ''weighted'') ''avg''
     = Some (VFloat64 160) \<and>
   Values (mergeMetric trend_example_target trend_example_source ''weighted'') ''p(95)''
     = Some (VFloat64 224) \<and>
   Values (mergeMetric trend_example_target trend_example_source ''weighted'') ''p(50)'' = None \<and>
   Type trend_four_target = ''trend'' \<and> Type trend_four_source = ''trend'' \<and>
   Values (mergeMetric trend_four_target trend_four_source ''weighted'') ''count''
     = Some (VFloat64 4) \<and>
   Values (mergeMetric trend_four_target trend_four_source ''weighted'') ''min''
     = Some (VFloat64 5) \<and>
   Values (mergeMetric trend_four_target trend_four_source ''weighted'') ''max''
     = Some (VFloat64 70) \<and>
   Values (mergeMetric trend_four_target trend_four_source ''weighted'') ''avg''
     = Some (VFloat64 35) \<and>
   Values (mergeMetric trend_four_target trend_four_source ''weighted'') ''p(50)''
     = Some (VFloat64 25) \<and>
   Values (mergeMetric trend_four_target trend_four_source ''weighted'') ''p(90)''
     = Some (VFloat64 35) \<and>
   Values (mergeMetric trend_four_target trend_four_source ''weighted'') ''p(95)''
     = Some (VFloat64 45) \<and>
   Values (mergeMetric trend_four_target trend_four_source ''weighted'') ''p(99)''
     = Some (VFloat64 40)"
proof -
  have a: "Values (mergeMetric trend_example_target trend_example_source ''weighted'') ''count''
     = Some (VFloat64 5) \<and>
   Values (mergeMetric trend_example_target trend_example_source ''weighted'') ''avg''
     = Some (VFloat64 160) \<and>
   Values (mergeMetric trend_example_target trend_example_source ''weighted'') ''p(95)''
     = Some (VFloat64 224) \<and>
   Values (mergeMetric trend_example_target trend_example_source ''weighted'') ''p(50)'' = None"
    using mergeTrend_weighted [of trend_example_target trend_example_source "''weighted''"]
    by (simp add: Let_def trend_example_target_def trend_example_source_def getFloat64_def)
  have b: "Values (mergeMetric trend_four_target trend_four_source ''weighted'') ''count''
     = Some (VFloat64 4) \<and>
   Values (mergeMetric trend_four_target trend_four_source ''weighted'') ''min''
     = Some (VFloat64 5) \<and>
   Values (mergeMetric trend_four_target trend_four_source ''weighted'') ''max''
     = Some (VFloat64 70) \<and>
   Values (mergeMetric trend_four_target trend_four_source ''weighted'') ''avg''
     = Some (VFloat64 35) \<and>
   Values (mergeMetric trend_four_target trend_four_source ''weighted'') ''p(50)''
     = Some (VFloat64 25) \<and>
   Values (mergeMetric trend_four_target trend_four_source ''weighted'') ''p(90)''
     = Some (VFloat64 35) \<and>
   Values (mergeMetric trend_four_target trend_four_source ''weighted'') ''p(95)''
     = Some (VFloat64 45) \<and>
   Values (mergeMetric trend_four_target trend_four_source ''weighted'') ''p(99)''
     = Some (VFloat64 40)"
    using mergeTrend_weighted [of trend_four_target trend_four_source "''weighted''"]
    by (simp add: Let_def trend_four_target_def trend_four_source_def getFloat64_def)
  have c: "Type trend_example_target = ''trend''" "Type trend_example_source = ''trend''"
    "Type trend_four_target = ''trend''" "Type trend_four_source = ''trend''"
    by (simp_all add: trend_example_target_def trend_example_source_def trend_four_target_def
        trend_four_source_def)
  from a b c show ?thesis by blast
qed

section \<open>Facts about the path normalizer\<close>

lemma getMaxEndpoints_pos: "0 < getMaxEndpoints envVal"
  by (simp add: getMaxEndpoints_def split: option.splits)

lemma handleCollisions_fresh:
  "0 < dpn_MaxEndpoints cfg \<Longrightarrow>
   fst (handleCollisionsAndCardinalityWithState md5hex normalized original (NewDPNState cfg))
     = normalized"
  by (simp add: handleCollisionsAndCardinalityWithState_def NewDPNState_def)

lemma ExtractSimpleEndpoint_fresh:
  "ExtractSimpleEndpoint md5hex uni envVal path0 =
     (let path = stripPath uni path0 in
      if path = [] \<or> path = ''/'' then ''root''
      else if tokenize uni path = [] then ''root''
      else templateOf uni path)"
proof -
  let ?cfg = "DefaultDPNConfig envVal"
  have pos: "0 < dpn_MaxEndpoints ?cfg"
    by (simp add: DefaultDPNConfig_def getMaxEndpoints_pos)
  have c: "map_of (cache (NewDPNState ?cfg)) path0 = None"
    by (simp add: NewDPNState_def)
  show ?thesis
    unfolding ExtractSimpleEndpoint_def ExtractSimpleEndpointWithState_def c
    using handleCollisions_fresh [OF pos, of md5hex]
    by (simp add: Let_def split: prod.splits) (metis fst_conv)
qed

lemma isASCII_iff: "isASCII s \<longleftrightarrow> (\<forall>c \<in> set s. \<not> digit7 c)"
  by (simp add: isASCII_def list_all_iff)

lemma isASCII_subset: "isASCII s \<Longrightarrow> set t \<subseteq> set s \<Longrightarrow> isASCII t"
  by (auto simp: isASCII_iff)

lemma tokenize_Nil: "tokenize uni [] = []"
  by (simp add: tokenize_def TrimSpace_def isASCII_def)

lemma tokenize_slash: "tokenize uni ''/'' = []"
  by (simp add: tokenize_def TrimSpace_def isASCII_def)

lemma templateOf_nothing_kept:
  "classifyTokens 0 (tokenize uni path) = [] \<Longrightarrow>
   templateOf uni path = Trim_underscore (ReplaceAll_slash path)"
  by (simp add: templateOf_def shapeTemplate_def Trim_underscore_def)

subsection \<open>The characters of a normalized key\<close>

lemma uppers_lowers_disjoint: "l \<in> set lowers \<Longrightarrow> l \<notin> set uppers"
  by (auto simp: lowers_def uppers_def)

lemma lowerc_not_upper: "lowerc c \<notin> set uppers"
proof (cases "map_of (zip uppers lowers) c")
  case None
  then have "c \<notin> fst ` set (zip uppers lowers)" by (simp add: map_of_eq_None_iff)
  moreover have "fst ` set (zip uppers lowers) = set uppers"
    by (simp add: uppers_def lowers_def)
  ultimately show ?thesis using None by (simp add: lowerc_def)
next
  case (Some l)
  then have "(c, l) \<in> set (zip uppers lowers)" by (rule map_of_SomeD)
  then have "l \<in> set lowers" by (rule set_zip_rightD)
  with Some show ?thesis by (simp add: lowerc_def uppers_lowers_disjoint)
qed

lemma lowerc_ascii: "\<not> digit7 c \<Longrightarrow> \<not> digit7 (lowerc c)"
proof (cases "map_of (zip uppers lowers) c")
  case None
  then show "\<not> digit7 c \<Longrightarrow> \<not> digit7 (lowerc c)" by (simp add: lowerc_def)
next
  case (Some l)
  then have "(c, l) \<in> set (zip uppers lowers)" by (rule map_of_SomeD)
  then have "l \<in> set lowers" by (rule set_zip_rightD)
  then have "\<not> digit7 l" by (auto simp: lowers_def)
  with Some show ?thesis by (simp add: lowerc_def)
qed

lemma lowerc_id: "c \<notin> set uppers \<Longrightarrow> lowerc c = c"
proof -
  assume "c \<notin> set uppers"
  moreover have "fst ` set (zip uppers lowers) = set uppers"
    by (simp add: uppers_def lowers_def)
  ultimately have "map_of (zip uppers lowers) c = None" by (simp add: map_of_eq_None_iff)
  then show ?thesis by (simp add: lowerc_def)
qed

lemma special_iff:
  "special c \<longleftrightarrow> c = CHR ''/'' \<or> c = CHR ''?'' \<or> c = CHR ''#'' \<or> c = CHR '';'' \<or> c \<in> set uppers"
  by (auto simp: special_def)

lemma underscore_not_special: "\<not> special CHR ''_''"
  by (simp add: special_def uppers_def)

lemma cutAt_set: "set (cutAt c s) \<subseteq> set s - {c}"
  unfolding cutAt_def by (auto dest: set_takeWhileD)

lemma TrimSuffix_slash_set: "set (TrimSuffix_slash s) \<subseteq> set s"
  by (auto simp: TrimSuffix_slash_def dest: in_set_butlastD)

lemma stripPath_chars:
  assumes "isASCII p" and "c \<in> set (stripPath uni p)"
  shows "c \<noteq> CHR ''?'' \<and> c \<noteq> CHR ''#'' \<and> c \<noteq> CHR '';'' \<and> c \<notin> set uppers \<and> \<not> digit7 c"
proof -
  let ?a = "ToLower uni p"
  let ?b = "cutAt CHR ''?'' ?a"
  let ?c = "cutAt CHR ''#'' ?b"
  let ?d = "cutAt CHR '';'' ?c"
  have s: "stripPath uni p = TrimSuffix_slash ?d" by (simp add: stripPath_def Let_def)
  from assms(2) have d: "c \<in> set ?d" unfolding s using TrimSuffix_slash_set by blast
  with cutAt_set [of "CHR '';''" ?c] have c3: "c \<noteq> CHR '';''" and c: "c \<in> set ?c" by auto
  with cutAt_set [of "CHR ''#''" ?b] have c2: "c \<noteq> CHR ''#''" and b: "c \<in> set ?b" by auto
  with cutAt_set [of "CHR ''?''" ?a] have c1: "c \<noteq> CHR ''?''" and a: "c \<in> set ?a" by auto
  from a assms(1) have "c \<notin> set uppers" "\<not> digit7 c"
    by (auto simp: ToLower_def lowerc_not_upper lowerc_ascii isASCII_iff)
  with c1 c2 c3 show ?thesis by simp
qed

lemma Split_parts: "part \<in> set (Split s sep) \<Longrightarrow> set part \<subseteq> set s - {sep}"
proof (induction s arbitrary: part)
  case Nil
  then show ?case by simp
next
  case (Cons c cs)
  show ?case
  proof (cases "c = sep")
    case True
    with Cons.prems have "part = [] \<or> part \<in> set (Split cs sep)" by simp
    with Cons.IH show ?thesis by auto
  next
    case False
    obtain q qs where sp: "Split cs sep = q # qs"
      by (cases "Split cs sep") (cases cs, simp_all split: if_splits list.splits)
    with False Cons.prems have "part = c # q \<or> part \<in> set qs" by simp
    moreover have "set q \<subseteq> set cs - {sep}" using Cons.IH [of q] sp by simp
    moreover have "part \<in> set qs \<Longrightarrow> set part \<subseteq> set cs - {sep}"
      using Cons.IH [of part] sp by simp
    ultimately show ?thesis using False by auto
  qed
qed

lemma TrimSpace_set: "isASCII s \<Longrightarrow> set (TrimSpace uni s) \<subseteq> set s"
  unfolding TrimSpace_def by (auto dest!: set_dropWhileD)

lemma tokenize_chars:
  assumes "isASCII path" and "t \<in> set (tokenize uni path)"
  shows "set t \<subseteq> set path - {CHR ''/''}"
proof -
  from assms(2) obtain part where p: "part \<in> set (Split path CHR ''/'')"
    and t: "t = TrimSpace uni part"
    by (auto simp: tokenize_def)
  from Split_parts [OF p] have sub: "set part \<subseteq> set path - {CHR ''/''}" .
  then have "isASCII part" using assms(1) by (auto simp: isASCII_iff)
  from TrimSpace_set [OF this, of uni] sub show ?thesis unfolding t by blast
qed

lemma classifyToken_Some: "classifyToken i t = Some k \<Longrightarrow> k = t"
  by (auto simp: classifyToken_def normalizeTemplateVariable_def Let_def split: if_splits)

lemma classifyTokens_subset: "set (classifyTokens i ts) \<subseteq> set ts"
proof (induction ts arbitrary: i)
  case Nil
  then show ?case by simp
next
  case (Cons t ts)
  then show ?case
    by (cases "classifyToken i t") (auto dest: classifyToken_Some)
qed

lemma Join_chars: "set (Join xs sep) \<subseteq> \<Union> (set ` set xs) \<union> set sep"
  by (induction xs sep rule: Join.induct) auto

lemma shapeTemplate_chars: "set (shapeTemplate ks) \<subseteq> \<Union> (set ` set ks) \<union> {CHR ''_''}"
proof (cases "length ks \<le> 3")
  case True
  then show ?thesis using Join_chars [of ks "''_''"] by (simp add: shapeTemplate_def)
next
  case False
  then have "0 < length ks" "1 < length ks" "length ks - 1 < length ks" by linarith+
  then have "ks ! 0 \<in> set ks" "ks ! 1 \<in> set ks" "ks ! (length ks - 1) \<in> set ks"
    using nth_mem [of 0 ks] nth_mem [of 1 ks] nth_mem [of "length ks - 1" ks] by blast+
  with False show ?thesis by (auto simp: shapeTemplate_def)
qed

lemma trimExtIfAny_set: "set (trimExtIfAny s) \<subseteq> set s"
  by (auto simp: trimExtIfAny_def Let_def dest: in_set_takeD)

lemma collapseUnderscores_set: "set (collapseUnderscores s) \<subseteq> set s"
  by (induction s rule: collapseUnderscores.induct) auto

lemma Trim_underscore_set: "set (Trim_underscore s) \<subseteq> set s"
  unfolding Trim_underscore_def by (auto dest!: set_dropWhileD)

lemma ReplaceAll_slash_chars: "set (ReplaceAll_slash s) \<subseteq> (set s - {CHR ''/''}) \<union> {CHR ''_''}"
  by (auto simp: ReplaceAll_slash_def)

lemma templateOf_chars:
  assumes "isASCII path" and "c \<in> set (templateOf uni path)"
  shows "c = CHR ''_'' \<or> (c \<in> set path \<and> c \<noteq> CHR ''/'')"
proof -
  let ?ks = "classifyTokens 0 (tokenize uni path)"
  let ?r1 = "shapeTemplate ?ks"
  let ?r2 = "if length ?ks > 0 then trimExtIfAny ?r1 else ?r1"
  let ?r3 = "collapseUnderscores ?r2"
  let ?r4 = "Trim_underscore ?r3"
  let ?r5 = "if length ?r4 > 80 then take 80 ?r4 else ?r4"
  have t: "templateOf uni path = (if ?r5 = [] then Trim_underscore (ReplaceAll_slash path) else ?r5)"
    by (simp add: templateOf_def Let_def)
  have ks: "\<Union> (set ` set ?ks) \<subseteq> set path - {CHR ''/''}"
    using classifyTokens_subset [of 0 "tokenize uni path"] tokenize_chars [OF assms(1), of _ uni]
    by blast
  have r1: "set ?r1 \<subseteq> (set path - {CHR ''/''}) \<union> {CHR ''_''}"
    using shapeTemplate_chars [of ?ks] ks by blast
  have r2: "set ?r2 \<subseteq> set ?r1" using trimExtIfAny_set [of ?r1] by simp
  have r3: "set ?r3 \<subseteq> set ?r2" by (rule collapseUnderscores_set)
  have r4: "set ?r4 \<subseteq> set ?r3" by (rule Trim_underscore_set)
  have r5: "set ?r5 \<subseteq> set ?r4" by (auto dest: in_set_takeD)
  have main: "set ?r5 \<subseteq> (set path - {CHR ''/''}) \<union> {CHR ''_''}"
    using r1 r2 r3 r4 r5 by blast
  have fb: "set (Trim_underscore (ReplaceAll_slash path)) \<subseteq> (set path - {CHR ''/''}) \<union> {CHR ''_''}"
    using Trim_underscore_set [of "ReplaceAll_slash path"] ReplaceAll_slash_chars [of path] by blast
  from assms(2) show ?thesis unfolding t using main fb by (auto split: if_splits)
qed

lemma ExtractSimpleEndpoint_not_special:
  assumes "isASCII p" and "c \<in> set (ExtractSimpleEndpoint md5hex uni envVal p)"
  shows "\<not> special c \<and> \<not> digit7 c"
proof -
  let ?path = "stripPath uni p"
  have ap: "isASCII ?path" using stripPath_chars [OF assms(1), of _ uni] by (auto simp: isASCII_iff)
  consider (root) "ExtractSimpleEndpoint md5hex uni envVal p = ''root''"
    | (tmpl) "ExtractSimpleEndpoint md5hex uni envVal p = templateOf uni ?path"
    unfolding ExtractSimpleEndpoint_fresh Let_def
    by (cases "stripPath uni p = [] \<or> stripPath uni p = ''/''";
        cases "tokenize uni (stripPath uni p) = []"; simp)
  then show ?thesis
  proof cases
    case root
    with assms(2) show ?thesis by (auto simp: special_def uppers_def)
  next
    case tmpl
    with assms(2) templateOf_chars [OF ap, of c uni]
    have "c = CHR ''_'' \<or> (c \<in> set ?path \<and> c \<noteq> CHR ''/'')" by simp
    then show ?thesis
      using stripPath_chars [OF assms(1), of c uni] underscore_not_special
      by (auto simp: special_iff)
  qed
qed

subsection \<open>Settled keys are fixed points\<close>

lemma map_lowerc_id: "\<forall>c \<in> set r. c \<notin> set uppers \<Longrightarrow> map lowerc r = r"
  by (induction r) (simp_all add: lowerc_id)

lemma ToLower_id: "isASCII r \<Longrightarrow> \<forall>c \<in> set r. c \<notin> set uppers \<Longrightarrow> ToLower uni r = r"
  unfolding ToLower_def by (simp add: map_lowerc_id)

lemma cutAt_id: "c \<notin> set r \<Longrightarrow> cutAt c r = r"
  unfolding cutAt_def by (simp add: takeWhile_eq_all_conv) blast

lemma TrimSuffix_slash_id: "CHR ''/'' \<notin> set r \<Longrightarrow> TrimSuffix_slash r = r"
proof -
  assume a: "CHR ''/'' \<notin> set r"
  have "last r \<noteq> CHR ''/''" if "r \<noteq> []"
    using last_in_set [OF that] a by auto
  then show ?thesis by (auto simp: TrimSuffix_slash_def)
qed

lemma Split_id: "sep \<notin> set r \<Longrightarrow> Split r sep = [r]"
  by (induction r) auto

lemma ReplaceAll_slash_id: "CHR ''/'' \<notin> set r \<Longrightarrow> ReplaceAll_slash r = r"
  unfolding ReplaceAll_slash_def by (induction r) auto

lemma stripPath_id:
  assumes "isASCII r" and "\<forall>c \<in> set r. \<not> special c"
  shows "stripPath uni r = r"
proof -
  from assms(2) have u: "\<forall>c \<in> set r. c \<notin> set uppers"
    and q: "CHR ''?'' \<notin> set r" and h: "CHR ''#'' \<notin> set r" and s: "CHR '';'' \<notin> set r"
    and sl: "CHR ''/'' \<notin> set r"
    by (auto simp: special_iff)
  show ?thesis
    by (simp add: stripPath_def Let_def ToLower_id [OF assms(1) u] cutAt_id [OF q] cutAt_id [OF h]
        cutAt_id [OF s] TrimSuffix_slash_id [OF sl])
qed

lemma tokenize_id:
  assumes "CHR ''/'' \<notin> set r" and "r \<noteq> []" and "TrimSpace uni r = r"
  shows "tokenize uni r = [r]"
  using assms by (simp add: tokenize_def Split_id)

lemma templateOf_settled:
  assumes "CHR ''/'' \<notin> set r" and "settled uni r"
  shows "templateOf uni r = r"
proof -
  from assms(2) have ne: "r \<noteq> []" and ts: "TrimSpace uni r = r" and te: "trimExtIfAny r = r"
    and cu: "collapseUnderscores r = r" and tu: "Trim_underscore r = r" and len: "length r \<le> 80"
    by (simp_all add: settled_def)
  have tok: "tokenize uni r = [r]" by (rule tokenize_id [OF assms(1) ne ts])
  show ?thesis
  proof (cases "classifyToken 0 r")
    case None
    then have "classifyTokens 0 (tokenize uni r) = []" by (simp add: tok)
    from templateOf_nothing_kept [OF this] show ?thesis
      by (simp add: ReplaceAll_slash_id [OF assms(1)] tu)
  next
    case (Some k)
    then have k: "k = r" by (rule classifyToken_Some)
    with Some have ks: "classifyTokens 0 (tokenize uni r) = [r]" by (simp add: tok)
    show ?thesis
      unfolding templateOf_def ks Let_def
      using ne len by (simp add: shapeTemplate_def te cu tu)
  qed
qed

lemma ExtractSimpleEndpoint_settled:
  assumes as: "isASCII r" and ns: "\<forall>c \<in> set r. \<not> special c" and st: "settled uni r"
  shows "ExtractSimpleEndpoint md5hex uni envVal r = r"
proof -
  from ns have sl: "CHR ''/'' \<notin> set r" by (auto simp: special_iff)
  from st have ne: "r \<noteq> []" and ts: "TrimSpace uni r = r" by (simp_all add: settled_def)
  have tok: "tokenize uni r = [r]" by (rule tokenize_id [OF sl ne ts])
  from sl have "r \<noteq> ''/''" by auto
  with ne tok show ?thesis
    by (simp add: ExtractSimpleEndpoint_fresh stripPath_id [OF as ns] Let_def
        templateOf_settled [OF sl st])
qed

subsection \<open>Re-normalization\<close>

text \<open>
  Claim C2, as amended. Normalization is idempotent on every path of ASCII bytes whose
  normalized key is settled: if \<open>ExtractSimpleEndpoint p\<close> is not empty, has no white
  space at either end, no extension that \<open>trimExtIfAny\<close> would cut, no run of
  underscores, no underscore at either end and at most 80 bytes, then normalizing it
  again (on a fresh state) returns it unchanged, whatever the hash, the Unicode behaviour
  of the library and the environment's ceiling. The normalizer itself guarantees that the
  key of an ASCII path is ASCII and has no upper-case letter and none of \<open>/\<close>,
  \<open>?\<close>, \<open>#\<close>, \<open>;\<close>. Paths with a byte of \<open>0x80\<close> or more are left out: on
  them the library rewrites invalid UTF-8, and a key cut at 80 bytes can end inside a
  character.
\<close>

theorem renormalization_of_settled_keys:
  "isASCII p \<and> settled uni (ExtractSimpleEndpoint md5hex uni envVal p) \<longrightarrow>
   ExtractSimpleEndpoint md5hex uni envVal (ExtractSimpleEndpoint md5hex uni envVal p)
     = ExtractSimpleEndpoint md5hex uni envVal p"
proof
  assume a: "isASCII p \<and> settled uni (ExtractSimpleEndpoint md5hex uni envVal p)"
  then have ap: "isASCII p" and st: "settled uni (ExtractSimpleEndpoint md5hex uni envVal p)"
    by simp_all
  have ns: "\<forall>c \<in> set (ExtractSimpleEndpoint md5hex uni envVal p). \<not> special c"
    using ExtractSimpleEndpoint_not_special [OF ap] by blast
  have as: "isASCII (ExtractSimpleEndpoint md5hex uni envVal p)"
    using ExtractSimpleEndpoint_not_special [OF ap] by (auto simp: isASCII_iff)
  from ExtractSimpleEndpoint_settled [OF as ns st]
  show "ExtractSimpleEndpoint md5hex uni envVal (ExtractSimpleEndpoint md5hex uni envVal p)
     = ExtractSimpleEndpoint md5hex uni envVal p" .
qed

lemma ex_uuid:
  "ExtractSimpleEndpoint noHash noUnicode None ''/api/v1/users/550e8400-e29b-41d4-a716-446655440000/profile''
     = ''users_profile''"
  by code_simp

lemma settled_users_profile: "settled noUnicode ''users_profile''"
  by code_simp

text \<open>
  The first scenario of the specification: the path normalizes to \<open>users_profile\<close>, which
  is settled and normalizes to itself.
\<close>

lemma ascii_uuid_path:
  "isASCII ''/api/v1/users/550e8400-e29b-41d4-a716-446655440000/profile''"
  by code_simp

theorem renormalization_of_settled_keys_witness:
  "isASCII ''/api/v1/users/550e8400-e29b-41d4-a716-446655440000/profile'' \<and>
   settled noUnicode (ExtractSimpleEndpoint noHash noUnicode None
      ''/api/v1/users/550e8400-e29b-41d4-a716-446655440000/profile'') \<and>
   ExtractSimpleEndpoint noHash noUnicode None
      ''/api/v1/users/550e8400-e29b-41d4-a716-446655440000/profile'' = ''users_profile'' \<and>
   ExtractSimpleEndpoint noHash noUnicode None (ExtractSimpleEndpoint noHash noUnicode None
      ''/api/v1/users/550e8400-e29b-41d4-a716-446655440000/profile'') = ''users_profile''"
  using renormalization_of_settled_keys
      [of "''/api/v1/users/550e8400-e29b-41d4-a716-446655440000/profile''" noUnicode noHash None]
  unfolding ex_uuid using settled_users_profile ascii_uuid_path by simp

lemma ex_ab_json: "ExtractSimpleEndpoint noHash noUnicode None ''/a.b.json'' = ''a.b''"
  by code_simp

lemma ex_ab: "ExtractSimpleEndpoint noHash noUnicode None ''a.b'' = ''a''"
  by code_simp

text \<open>
  Claim C2 as stated fails: \<open>/a.b.json\<close> normalizes to \<open>a.b\<close> (the extension \<open>.json\<close> is
  cut), and \<open>a.b\<close> normalizes to \<open>a\<close> (now \<open>.b\<close> is cut as an extension).
\<close>

theorem renormalization_counterexample:
  "isASCII ''/a.b.json'' \<and>
   ExtractSimpleEndpoint noHash noUnicode None ''/a.b.json'' = ''a.b'' \<and>
   ExtractSimpleEndpoint noHash noUnicode None (ExtractSimpleEndpoint noHash noUnicode None ''/a.b.json'') = ''a'' \<and>
   ExtractSimpleEndpoint noHash noUnicode None (ExtractSimpleEndpoint noHash noUnicode None ''/a.b.json'')
     \<noteq> ExtractSimpleEndpoint noHash noUnicode None ''/a.b.json''"
  unfolding ex_ab_json ex_ab by (simp add: isASCII_def)


subsection \<open>The cardinality controller of the normalizer\<close>

lemma keys_card_le: "card (fst ` set al) \<le> length al"
  by (metis card_image_le card_length le_trans List.finite_set)

lemma update_length_le: "length (AList.update k v al) \<le> Suc (length al)"
  by (induction al) auto

lemma handleCollisions_inv:
  assumes "dpn_inv cfg state"
  shows "dpn_inv cfg (snd (handleCollisionsAndCardinalityWithState md5hex normalized original state))"
proof -
  from assms have c: "dpn_config state = cfg"
    and l: "int (length (endpointCollisions state)) \<le> dpn_endpointCount state"
    and m: "dpn_endpointCount state \<le> dpn_MaxEndpoints cfg"
    by (simp_all add: dpn_inv_def)
  have u: "int (length (AList.update k v (endpointCollisions state))) \<le> dpn_endpointCount state + 1"
    for k v
    using update_length_le [of k v "endpointCollisions state"] l by linarith
  show ?thesis
  proof (cases "dpn_endpointCount state \<ge> dpn_MaxEndpoints cfg")
    case True
    with c l m show ?thesis
      by (simp add: handleCollisionsAndCardinalityWithState_def dpn_inv_def)
  next
    case False
    then have lt: "dpn_endpointCount state + 1 \<le> dpn_MaxEndpoints cfg" by simp
    with False c u show ?thesis
      by (simp add: handleCollisionsAndCardinalityWithState_def dpn_inv_def Let_def
          split: option.splits)
  qed
qed

lemma cache_changes_inv:
  "dpn_inv cfg state \<Longrightarrow> dpn_inv cfg (state\<lparr>cache := c\<rparr>)"
  by (simp add: dpn_inv_def)

lemma Extract_inv:
  assumes "dpn_inv cfg state"
  shows "dpn_inv cfg (snd (ExtractSimpleEndpointWithState md5hex uni path state))"
proof -
  let ?h = "handleCollisionsAndCardinalityWithState md5hex (templateOf uni (stripPath uni path))
              (stripPath uni path) state"
  have h: "dpn_inv cfg (snd ?h)" by (rule handleCollisions_inv [OF assms])
  obtain result state1 where hs: "?h = (result, state1)" by (cases ?h)
  with h have s1: "dpn_inv cfg state1" by simp
  show ?thesis
    unfolding ExtractSimpleEndpointWithState_def Let_def hs
    using assms s1 by (simp add: cache_changes_inv split: option.splits)
qed

lemma ExtractWithMethod_snd:
  "snd (ExtractSimpleEndpointWithMethodAndState md5hex uni path method state)
     = snd (ExtractSimpleEndpointWithState md5hex uni path state)"
  by (simp add: ExtractSimpleEndpointWithMethodAndState_def Let_def split: prod.splits)

lemma runCall_inv: "dpn_inv cfg state \<Longrightarrow> dpn_inv cfg (runCall md5hex uni state call)"
  by (cases call) (simp_all add: Extract_inv handleCollisions_inv ExtractWithMethod_snd)

lemma runCalls_inv: "dpn_inv cfg state \<Longrightarrow> dpn_inv cfg (foldl (runCall md5hex uni) state calls)"
  by (induction calls arbitrary: state) (simp_all add: runCall_inv)

lemma NewDPNState_inv: "0 \<le> dpn_MaxEndpoints cfg \<Longrightarrow> dpn_inv cfg (NewDPNState cfg)"
  by (simp add: dpn_inv_def NewDPNState_def)

lemma dpn_inv_keys:
  assumes "dpn_inv cfg state"
  shows "int (card (fst ` set (endpointCollisions state) - {''other''})) \<le> dpn_MaxEndpoints cfg"
proof -
  have "card (fst ` set (endpointCollisions state) - {''other''})
          \<le> card (fst ` set (endpointCollisions state))"
    by (intro card_mono) auto
  also have "\<dots> \<le> length (endpointCollisions state)" by (rule keys_card_le)
  finally show ?thesis using assms by (simp add: dpn_inv_def)
qed

lemma handleCollisions_key_recorded:
  "fst (handleCollisionsAndCardinalityWithState md5hex normalized original state) = ''other'' \<or>
   fst (handleCollisionsAndCardinalityWithState md5hex normalized original state)
     \<in> fst ` set (endpointCollisions
           (snd (handleCollisionsAndCardinalityWithState md5hex normalized original state)))"
  by (simp add: handleCollisionsAndCardinalityWithState_def Let_def dom_update
      split: option.splits)

subsection \<open>The scenarios of the repository's tests\<close>

lemma normalizer_scenarios:
  "fst (ExtractSimpleEndpointWithMethodAndState noHash noUnicode ''/policy/{{.setup.tenant_locator}}/holds''
          ''patch'' (NewDPNState (DefaultDPNConfig None))) = ''PATCH_policy_holds''"
  "fst (ExtractSimpleEndpointWithMethodAndState noHash noUnicode ''/a/b/c/d/e'' []
          (NewDPNState (DefaultDPNConfig None))) = ''GET_a_b_e''"
  "ExtractSimpleEndpoint noHash noUnicode None ''/.well-known/jwks.json'' = ''.well-known_jwks''"
  "ExtractSimpleEndpoint noHash noUnicode None ''/reports;region=us/2024/summary.pdf'' = ''reports''"
  "ExtractSimpleEndpoint noHash noUnicode None ''/api/v1.0-rc1/users'' = ''users''"
  "ExtractSimpleEndpoint noHash noUnicode None ''/content/en-US/articles'' = ''content_en-us_articles''"
  by code_simp+

section \<open>Facts about threshold resolution and validation\<close>

lemma ms_simps: "Milliseconds (n * Millisecond) = n" if "0 \<le> n"
  using that by (simp add: Milliseconds_def Millisecond_def)

lemma get_users_not_system: "isEndpointMetric ''GET /users''"
  by (simp add: isEndpointMetric_def systemMetrics_def HasPrefix_def)

lemma get_slow_not_system: "isEndpointMetric ''GET /slow''"
  by (simp add: isEndpointMetric_def systemMetrics_def HasPrefix_def)

lemma no_group_get_users:
  "overlayFirstGroup globMatchString ''GET /users'' (Groups DefaultThresholdConfig) r = r"
  by (simp add: DefaultThresholdConfig_def matchesPattern_def ReplaceAll_star_def
      globMatchString_def plainChar_def Let_def)

lemma no_group_get_slow:
  "overlayFirstGroup globMatchString ''GET /slow'' (Groups DefaultThresholdConfig) r = r"
  by (simp add: DefaultThresholdConfig_def matchesPattern_def ReplaceAll_star_def
      globMatchString_def plainChar_def Let_def)

lemma thresholds_default:
  "Endpoints tc name = None \<Longrightarrow> overlayFirstGroup MatchString name (Groups tc) (Defaults tc) = Defaults tc \<Longrightarrow>
   GetThresholdForEndpoint MatchString tc name = Defaults tc"
  by (simp add: GetThresholdForEndpoint_def Let_def)

lemma thresholds_get_users:
  "GetThresholdForEndpoint globMatchString DefaultThresholdConfig ''GET /users'' =
     noThresholds
       \<lparr>P95 := Some \<lparr>d_Value = 300 * Millisecond, d_Tolerance = None\<rparr>,
        P99 := Some \<lparr>d_Value = 1000 * Millisecond, d_Tolerance = None\<rparr>,
        Avg := Some \<lparr>d_Value = 150 * Millisecond, d_Tolerance = None\<rparr>,
        ErrorRate := Some \<lparr>r_Value = float64 0.01, r_Tolerance = None\<rparr>\<rparr>"
  unfolding GetThresholdForEndpoint_def Let_def no_group_get_users
  by (simp add: DefaultThresholdConfig_def mergeThresholdValues_def noThresholds_def)

lemma thresholds_get_slow:
  "GetThresholdForEndpoint globMatchString DefaultThresholdConfig ''GET /slow'' =
     Defaults DefaultThresholdConfig"
  by (rule thresholds_default) (simp_all add: no_group_get_slow, simp add: DefaultThresholdConfig_def)

text \<open>Some values of the rounding, as \<^verbatim>\<open>float64\<close> has them.\<close>

lemma float64_examples:
  "float64 (1 / 10) = 3602879701896397 / 2 ^ 55"
  "fadd (float64 (1 / 10)) (float64 (2 / 10)) = 5404319552844596 / 2 ^ 54"
  "float64 (2 ^ 53 + 1) = 2 ^ 53"
  "float64 (2 ^ 53 + 3) = 2 ^ 53 + 4"
  "float64 (- (1 / 3)) = - (6004799503160661 / 2 ^ 54)"
  "fmul 100 (fadd 1 (fdiv 15 100)) < 115"
  "fmul 200 (fadd 1 (fdiv 10 100)) = 220 + 1 / 2 ^ 45"
  "fmul 200 (fadd 1 (fmul (fdiv 10 100) 1.5)) < 230"
  by code_simp+

lemma int64_of_float64_examples:
  "int64_of_float64 150.7 = 150" "int64_of_float64 (- 150.7) = - 150"
  "int64_of_float64 (2 ^ 63 - 1024) = 2 ^ 63 - 1024"
  "int64_of_float64 (2 ^ 63) = - (2 ^ 63)"
  by code_simp+

lemma durations_get_users:
  "checkDurationThresholds DefaultThresholdConfig ''GET /users'' users_metric
     (noThresholds
       \<lparr>P95 := Some \<lparr>d_Value = 300 * Millisecond, d_Tolerance = None\<rparr>,
        P99 := Some \<lparr>d_Value = 1000 * Millisecond, d_Tolerance = None\<rparr>,
        Avg := Some \<lparr>d_Value = 150 * Millisecond, d_Tolerance = None\<rparr>,
        ErrorRate := Some \<lparr>r_Value = float64 0.01, r_Tolerance = None\<rparr>\<rparr>) 150 =
     [\<lparr>b_Endpoint = ''GET /users'', b_Metric = ''p(95)'', b_Value = 400, b_Threshold = 300,
       b_Unit = ''ms'', b_Severity = ''error'', b_SampleCount = 150\<rparr>]"
  by code_simp

lemma rates_get_users:
  "checkRateThresholds DefaultThresholdConfig ''GET /users'' users_metric
     (noThresholds
       \<lparr>P95 := Some \<lparr>d_Value = 300 * Millisecond, d_Tolerance = None\<rparr>,
        P99 := Some \<lparr>d_Value = 1000 * Millisecond, d_Tolerance = None\<rparr>,
        Avg := Some \<lparr>d_Value = 150 * Millisecond, d_Tolerance = None\<rparr>,
        ErrorRate := Some \<lparr>r_Value = float64 0.01, r_Tolerance = None\<rparr>\<rparr>) 150 = []"
  by code_simp

lemma sampleCount_examples:
  "sampleCountOf users_metric = 150" "sampleCountOf slow_metric = 50"
  "sampleCountOf busy_metric = 150"
  by code_simp+

lemma validate_get_users:
  "validateMetric globMatchString DefaultThresholdConfig 100 (''GET /users'', users_metric) =
     [\<lparr>b_Endpoint = ''GET /users'', b_Metric = ''p(95)'', b_Value = 400, b_Threshold = 300,
       b_Unit = ''ms'', b_Severity = ''error'', b_SampleCount = 150\<rparr>]"
  unfolding validateMetric_def Let_def fst_conv snd_conv thresholds_get_users
    sampleCount_examples durations_get_users rates_get_users
  by (simp add: get_users_not_system)

lemma effMin_default: "effectiveMinSamples DefaultThresholdConfig = 100"
  by (simp add: effectiveMinSamples_def DefaultThresholdConfig_def)

subsection \<open>Duration thresholds\<close>













lemma abc_not_global: "\<not> isGlobalMetric ''a''" "\<not> isGlobalMetric ''b''" "\<not> isGlobalMetric ''c''"
  by (simp_all add: isGlobalMetric_def globalMetrics_def HasPrefix_def)

lemma agg_abc_dom:
  "dom (result_Metrics (foldl (aggregateSnapshot noHash config2) initialAggState
          [[(''a'', trendOf 1), (''b'', trendOf 2), (''c'', trendOf 3)]]))
     = {''a'', ''b'', ''other''}"
  by (simp add: aggregateSnapshot_def aggregateMetric_def abc_not_global Let_def config2_def
        initialAggState_def normalizeEndpoint_def storeMetric_fields insert_commute)

lemma dpn_ab:
  "endpointCollisions (foldl (runCall noHash noUnicode) (NewDPNState dpn_config1)
      [CallExtract ''/a'', CallExtract ''/b'']) = [(''a'', ''/a'')]"
  by code_simp

subsection \<open>The cardinality ceiling\<close>

lemma AggregateMetrics_keys:
  assumes "0 \<le> MaxEndpoints config"
      and "AggregateMetrics md5hex metricsList config = Inr result"
  shows "finite (dom result) \<and> int (card (endpointKeys result)) \<le> MaxEndpoints config"
proof -
  let ?st = "foldl (aggregateSnapshot md5hex config) initialAggState metricsList"
  from assms(2) have r: "result = addGlobalMetrics (result_Metrics ?st) metricsList"
    by (simp add: AggregateMetrics_def Let_def split: if_splits)
  have inv: "agg_inv config ?st"
    unfolding foldl_aggregateSnapshot
    by (rule agg_inv_foldl [OF agg_inv_initial [OF assms(1)]])
  then have fin: "finite (dom (result_Metrics ?st))"
    and cnt: "int (card {k \<in> dom (result_Metrics ?st). k \<noteq> ''other''}) \<le> endpointCount ?st"
    and le: "endpointCount ?st \<le> MaxEndpoints config"
    by (simp_all add: agg_inv_def)
  from addGlobalMetrics_keys [OF fin, of metricsList]
  have f: "finite (dom result)"
    and sub: "endpointKeys result \<subseteq> {k \<in> dom (result_Metrics ?st). k \<noteq> ''other''}"
    unfolding r by simp_all
  have "card (endpointKeys result) \<le> card {k \<in> dom (result_Metrics ?st). k \<noteq> ''other''}"
    using sub fin by (intro card_mono) simp_all
  with cnt le f show ?thesis by linarith
qed

text \<open>
  Claim C4 (cardinality ceiling), for a ceiling that is not negative. Whatever the list
  of snapshots, \<open>AggregateMetrics\<close> succeeds on a non-empty list, and the keys of its
  result other than \<open>other\<close> and the global metrics are finitely many and at most
  \<open>MaxEndpoints\<close>. Whatever the sequence of calls on a normalizer state created by
  \<open>NewDPNState\<close>, the keys recorded by its cardinality controller, other than \<open>other\<close>,
  are at most \<open>MaxEndpoints\<close>; and every key the controller hands out is \<open>other\<close> or
  a recorded key. (The template \<open>root\<close> of an empty path is returned before the
  controller is reached and is not recorded.)
\<close>

theorem cardinality_ceiling:
  "(0 \<le> MaxEndpoints config \<longrightarrow>
      (metricsList \<noteq> [] \<longrightarrow> (\<exists>result. AggregateMetrics md5hex metricsList config = Inr result)) \<and>
      (\<forall>result. AggregateMetrics md5hex metricsList config = Inr result \<longrightarrow>
         finite (dom result) \<and> int (card (endpointKeys result)) \<le> MaxEndpoints config)) \<and>
   (0 \<le> dpn_MaxEndpoints cfg \<longrightarrow>
      int (card (fst ` set (endpointCollisions (foldl (runCall md5hex uni) (NewDPNState cfg) calls))
                 - {''other''})) \<le> dpn_MaxEndpoints cfg) \<and>
   (fst (handleCollisionsAndCardinalityWithState md5hex normalized original state) = ''other'' \<or>
    fst (handleCollisionsAndCardinalityWithState md5hex normalized original state)
      \<in> fst ` set (endpointCollisions
            (snd (handleCollisionsAndCardinalityWithState md5hex normalized original state))))"
proof -
  have a: "metricsList \<noteq> [] \<longrightarrow> (\<exists>result. AggregateMetrics md5hex metricsList config = Inr result)"
    by (simp add: AggregateMetrics_def Let_def)
  have b: "finite (dom result) \<and> int (card (endpointKeys result)) \<le> MaxEndpoints config"
    if "0 \<le> MaxEndpoints config" "AggregateMetrics md5hex metricsList config = Inr result"
    for result
    using AggregateMetrics_keys [OF that] .
  have c: "int (card (fst ` set (endpointCollisions (foldl (runCall md5hex uni) (NewDPNState cfg) calls))
                 - {''other''})) \<le> dpn_MaxEndpoints cfg"
    if "0 \<le> dpn_MaxEndpoints cfg"
    by (rule dpn_inv_keys [OF runCalls_inv [OF NewDPNState_inv [OF that]]])
  from a b c handleCollisions_key_recorded [of md5hex normalized original state]
  show ?thesis by blast
qed

lemma agg_abc_result:
  "AggregateMetrics noHash [[(''a'', trendOf 1), (''b'', trendOf 2), (''c'', trendOf 3)]] config2
     = Inr (addGlobalMetrics (result_Metrics (foldl (aggregateSnapshot noHash config2) initialAggState
          [[(''a'', trendOf 1), (''b'', trendOf 2), (''c'', trendOf 3)]]))
          [[(''a'', trendOf 1), (''b'', trendOf 2), (''c'', trendOf 3)]])"
  by (simp add: AggregateMetrics_def Let_def)

lemma agg_abc_globals:
  "addGlobalMetrics r [[(''a'', trendOf 1), (''b'', trendOf 2), (''c'', trendOf 3)]] = r"
  by (simp add: addGlobalMetrics_def addGlobalMetric_def Let_def abc_not_global)

text \<open>
  Three endpoints under a ceiling of \<open>2\<close>: the aggregate holds two of them and \<open>other\<close>.
  Two paths under a ceiling of \<open>1\<close>: the normalizer records the first only.
\<close>

theorem cardinality_ceiling_witness:
  "0 \<le> MaxEndpoints config2 \<and>
   (\<exists>result. AggregateMetrics noHash [[(''a'', trendOf 1), (''b'', trendOf 2), (''c'', trendOf 3)]]
                config2 = Inr result \<and>
      dom result = {''a'', ''b'', ''other''} \<and>
      int (card (endpointKeys result)) \<le> MaxEndpoints config2) \<and>
   0 \<le> dpn_MaxEndpoints dpn_config1 \<and>
   endpointCollisions (foldl (runCall noHash noUnicode) (NewDPNState dpn_config1)
      [CallExtract ''/a'', CallExtract ''/b'']) = [(''a'', ''/a'')] \<and>
   int (card (fst ` set (endpointCollisions (foldl (runCall noHash noUnicode) (NewDPNState dpn_config1)
      [CallExtract ''/a'', CallExtract ''/b''])) - {''other''})) \<le> dpn_MaxEndpoints dpn_config1"
proof -
  let ?ms = "[[(''a'', trendOf 1), (''b'', trendOf 2), (''c'', trendOf 3)]]"
  let ?calls = "[CallExtract ''/a'', CallExtract ''/b'']"
  have h1: "0 \<le> MaxEndpoints config2" by (simp add: config2_def)
  have h2: "0 \<le> dpn_MaxEndpoints dpn_config1" by (simp add: dpn_config1_def)
  note T = cardinality_ceiling [of config2 ?ms noHash dpn_config1 noUnicode ?calls "[]" "[]"
      "NewDPNState dpn_config1"]
  obtain result where r: "AggregateMetrics noHash ?ms config2 = Inr result"
    using T h1 by blast
  with T h1 have k: "int (card (endpointKeys result)) \<le> MaxEndpoints config2" by blast
  from r have "result = result_Metrics (foldl (aggregateSnapshot noHash config2) initialAggState ?ms)"
    unfolding agg_abc_result agg_abc_globals by simp
  then have d: "dom result = {''a'', ''b'', ''other''}" using agg_abc_dom by simp
  from T h2 have c: "int (card (fst ` set (endpointCollisions (foldl (runCall noHash noUnicode)
      (NewDPNState dpn_config1) ?calls)) - {''other''})) \<le> dpn_MaxEndpoints dpn_config1"
    by blast
  from h1 h2 r k d c dpn_ab show ?thesis by blast
qed

subsection \<open>Resolution depends on the order of the group patterns\<close>

text \<open>
  Claim C5 at a failing input. The groups \<open>a*\<close> and \<open>*b\<close> both match the endpoint
  \<open>ab\<close>. The resolver takes whichever of them the \<^verbatim>\<open>range\<close> loop over the Go map visits
  first: visited in the order \<open>a*\<close>, \<open>*b\<close> it resolves \<open>p95 = 100ms\<close>, in the other order
  \<open>p95 = 200ms\<close>, for the same configuration. The lexicographically first pattern is
  \<open>*b\<close>, so the first order contradicts the claim, and the result is not a function of
  configuration and endpoint.
\<close>

theorem group_order_decides:
  "set (Groups (config_groups groups_ab)) = set (Groups (config_groups (rev groups_ab))) \<and>
   matchesPattern globMatchString ''ab'' ''a*'' \<and> matchesPattern globMatchString ''ab'' ''*b'' \<and>
   P95 (GetThresholdForEndpoint globMatchString (config_groups groups_ab) ''ab'')
     = Some \<lparr>d_Value = 100 * Millisecond, d_Tolerance = None\<rparr> \<and>
   P95 (GetThresholdForEndpoint globMatchString (config_groups (rev groups_ab)) ''ab'')
     = Some \<lparr>d_Value = 200 * Millisecond, d_Tolerance = None\<rparr> \<and>
   GetThresholdForEndpoint globMatchString (config_groups groups_ab) ''ab''
     \<noteq> GetThresholdForEndpoint globMatchString (config_groups (rev groups_ab)) ''ab''"
proof -
  have m1: "matchesPattern globMatchString ''ab'' ''a*''"
    by (simp add: matchesPattern_def ReplaceAll_star_def globMatchString_def plainChar_def Let_def)
  have m2: "matchesPattern globMatchString ''ab'' ''*b''"
    by (simp add: matchesPattern_def ReplaceAll_star_def globMatchString_def plainChar_def Let_def)
  have a: "P95 (GetThresholdForEndpoint globMatchString (config_groups groups_ab) ''ab'')
     = Some \<lparr>d_Value = 100 * Millisecond, d_Tolerance = None\<rparr>"
    by (simp add: GetThresholdForEndpoint_def Let_def config_groups_def groups_ab_def m1
        mergeThresholdValues_def noThresholds_def)
  have b: "P95 (GetThresholdForEndpoint globMatchString (config_groups (rev groups_ab)) ''ab'')
     = Some \<lparr>d_Value = 200 * Millisecond, d_Tolerance = None\<rparr>"
    by (simp add: GetThresholdForEndpoint_def Let_def config_groups_def groups_ab_def m2
        mergeThresholdValues_def noThresholds_def)
  have ne: "GetThresholdForEndpoint globMatchString (config_groups groups_ab) ''ab''
     \<noteq> GetThresholdForEndpoint globMatchString (config_groups (rev groups_ab)) ''ab''"
  proof
    assume "GetThresholdForEndpoint globMatchString (config_groups groups_ab) ''ab''
     = GetThresholdForEndpoint globMatchString (config_groups (rev groups_ab)) ''ab''"
    then have "P95 (GetThresholdForEndpoint globMatchString (config_groups groups_ab) ''ab'')
     = P95 (GetThresholdForEndpoint globMatchString (config_groups (rev groups_ab)) ''ab'')"
      by simp
    then show False unfolding a b by (simp add: Millisecond_def)
  qed
  have s: "set (Groups (config_groups groups_ab)) = set (Groups (config_groups (rev groups_ab)))"
    by (simp add: config_groups_def)
  from s m1 m2 a b ne show ?thesis by blast
qed

subsection \<open>Degenerate paths\<close>

lemma ex_api_v1: "ExtractSimpleEndpoint noHash noUnicode None ''/api/v1'' = ''api_v1''"
  by code_simp

lemma tokens_api_v1: "tokenize noUnicode (stripPath noUnicode ''/api/v1'') = [''api'', ''v1'']"
  by code_simp

lemma kept_api_v1: "classifyTokens 0 [''api'', ''v1''] = []"
  by code_simp

lemma stripPath_ascii: "isASCII s \<Longrightarrow> stripPath uni s = stripPath noUnicode s"
  by (simp add: stripPath_def ToLower_def)

lemma tokenize_ascii:
  assumes "isASCII s"
  shows "tokenize uni s = tokenize noUnicode s"
proof -
  have "TrimSpace uni part = TrimSpace noUnicode part" if "part \<in> set (Split s CHR ''/'')" for part
  proof -
    from Split_parts [OF that] assms have "isASCII part" by (auto simp: isASCII_iff)
    then show ?thesis by (simp add: TrimSpace_def)
  qed
  then show ?thesis by (simp add: tokenize_def cong: map_cong)
qed

lemma tokens_slashes_ascii:
  "tokenize noUnicode (stripPath noUnicode []) = []"
  "tokenize noUnicode (stripPath noUnicode ''/'') = []"
  "tokenize noUnicode (stripPath noUnicode ''///'') = []"
  "isASCII []" "isASCII ''/''" "isASCII ''///''"
  "isASCII (stripPath noUnicode [])" "isASCII (stripPath noUnicode ''/'')"
  "isASCII (stripPath noUnicode ''///'')"
  by code_simp+

lemma tokens_ascii:
  assumes "isASCII s" and "isASCII (stripPath noUnicode s)"
  shows "tokenize uni (stripPath uni s) = tokenize noUnicode (stripPath noUnicode s)"
  unfolding stripPath_ascii [OF assms(1), of uni] by (rule tokenize_ascii [OF assms(2)])

lemma tokens_slashes:
  "tokenize uni (stripPath uni []) = []" "tokenize uni (stripPath uni ''/'') = []"
  "tokenize uni (stripPath uni ''///'') = []"
  using tokens_ascii [of "[]" uni] tokens_ascii [of "''/''" uni] tokens_ascii [of "''///''" uni]
  by (simp_all only: tokens_slashes_ascii)

text \<open>
  Claim C6, as amended. A path with no token at all (nothing but slashes and white space
  after lower-casing and cutting the query, fragment and matrix parts) normalizes to
  \<open>root\<close>; in particular the empty path, \<open>/\<close> and \<open>///\<close> do. A path that has tokens,
  all of which the classifier drops, does not: the normalizer falls back to the
  stripped path with every \<open>/\<close> replaced by \<open>_\<close> and the underscores at both ends
  removed.
\<close>

theorem degenerate_paths:
  "(let path = stripPath uni path0 in
     (tokenize uni path = [] \<longrightarrow> ExtractSimpleEndpoint md5hex uni envVal path0 = ''root'') \<and>
     (tokenize uni path \<noteq> [] \<and> classifyTokens 0 (tokenize uni path) = [] \<longrightarrow>
        ExtractSimpleEndpoint md5hex uni envVal path0 = Trim_underscore (ReplaceAll_slash path))) \<and>
   ExtractSimpleEndpoint md5hex uni envVal [] = ''root'' \<and>
   ExtractSimpleEndpoint md5hex uni envVal ''/'' = ''root'' \<and>
   ExtractSimpleEndpoint md5hex uni envVal ''///'' = ''root''"
proof -
  have a: "ExtractSimpleEndpoint md5hex uni envVal q = ''root''"
    if "tokenize uni (stripPath uni q) = []" for q
    using that by (simp add: ExtractSimpleEndpoint_fresh Let_def)
  have b: "ExtractSimpleEndpoint md5hex uni envVal path0
             = Trim_underscore (ReplaceAll_slash (stripPath uni path0))"
    if t: "tokenize uni (stripPath uni path0) \<noteq> []"
      and k: "classifyTokens 0 (tokenize uni (stripPath uni path0)) = []"
  proof -
    from t have "stripPath uni path0 \<noteq> []" "stripPath uni path0 \<noteq> ''/''"
      using tokenize_Nil tokenize_slash by auto
    with t show ?thesis
      by (simp add: ExtractSimpleEndpoint_fresh Let_def templateOf_nothing_kept [OF k])
  qed
  from a [of path0] b a [OF tokens_slashes(1)] a [OF tokens_slashes(2)] a [OF tokens_slashes(3)]
  show ?thesis unfolding Let_def by blast
qed

lemma dropped_api_v1: "classifyToken 0 ''api'' = None" "classifyToken 1 ''v1'' = None"
  by code_simp+

lemma fallback_api_v1: "Trim_underscore (ReplaceAll_slash (stripPath noUnicode ''/api/v1'')) = ''api_v1''"
  by code_simp

text \<open>
  \<open>///\<close> has no token and gives \<open>root\<close>; \<open>/api/v1\<close> has the tokens \<open>api\<close> and \<open>v1\<close>,
  both dropped, and gives \<open>api_v1\<close>.
\<close>

theorem degenerate_paths_witness:
  "tokenize noUnicode (stripPath noUnicode ''///'') = [] \<and>
   ExtractSimpleEndpoint noHash noUnicode None ''///'' = ''root'' \<and>
   tokenize noUnicode (stripPath noUnicode ''/api/v1'') \<noteq> [] \<and>
   classifyTokens 0 (tokenize noUnicode (stripPath noUnicode ''/api/v1'')) = [] \<and>
   ExtractSimpleEndpoint noHash noUnicode None ''/api/v1'' = ''api_v1''"
  using degenerate_paths [of noUnicode "''///''" noHash None]
    degenerate_paths [of noUnicode "''/api/v1''" noHash None]
  unfolding Let_def tokens_api_v1 kept_api_v1 fallback_api_v1 tokens_slashes
  by simp

text \<open>
  Claim C6 as stated fails: \<open>/api/v1\<close> consists of an API prefix and a version token,
  both dropped by the classifier, and normalizes to \<open>api_v1\<close>, not to \<open>root\<close>.
\<close>

theorem degenerate_paths_counterexample:
  "tokenize noUnicode (stripPath noUnicode ''/api/v1'') = [''api'', ''v1''] \<and>
   classifyToken 0 ''api'' = None \<and> classifyToken 1 ''v1'' = None \<and>
   ExtractSimpleEndpoint noHash noUnicode None ''/api/v1'' = ''api_v1'' \<and>
   ExtractSimpleEndpoint noHash noUnicode None ''/api/v1'' \<noteq> ''root''"
  unfolding ex_api_v1 tokens_api_v1 dropped_api_v1 by simp


subsection \<open>The minimum-sample gate\<close>

text \<open>
  Claim C7, as amended. The validator's minimum is \<open>options.min_samples\<close>, or \<open>100\<close> when
  that is \<open>0\<close>. The sample count of a metric is its \<open>count\<close> when that is an \<^verbatim>\<open>int64\<close>,
  its \<open>count\<close> truncated towards zero when that is a \<^verbatim>\<open>float64\<close> whose truncation fits
  \<^verbatim>\<open>int64\<close>, and \<open>0\<close> when \<open>count\<close> is absent or of another type. A metric whose sample
  count is below the minimum yields no breach at all. An endpoint metric whose sample
  count is at or above that minimum, and at or above the resolved per-endpoint override
  when there is one, is validated: its breaches are those of the duration checks followed
  by those of the rate checks. The validator's result is the concatenation of these
  per-metric results.
\<close>

theorem min_sample_gate:
  "let minSamples = effectiveMinSamples tc;
       thresholds = GetThresholdForEndpoint MatchString tc name;
       sampleCount = sampleCountOf metric
   in minSamples = (if opt_MinSamples (Options tc) = 0 then 100 else opt_MinSamples (Options tc)) \<and>
      (\<forall>c. Values metric ''count'' = Some (VInt64 c) \<longrightarrow> sampleCount = c) \<and>
      (\<forall>c. Values metric ''count'' = Some (VFloat64 c) \<and>
           - (2 ^ 63) \<le> (if 0 \<le> c then \<lfloor>c\<rfloor> else \<lceil>c\<rceil>) \<and>
           (if 0 \<le> c then \<lfloor>c\<rfloor> else \<lceil>c\<rceil>) < 2 ^ 63 \<longrightarrow>
           sampleCount = (if 0 \<le> c then \<lfloor>c\<rfloor> else \<lceil>c\<rceil>)) \<and>
      ((\<forall>c. Values metric ''count'' \<noteq> Some (VInt64 c)) \<and>
       (\<forall>c. Values metric ''count'' \<noteq> Some (VFloat64 c)) \<longrightarrow> sampleCount = 0) \<and>
      ValidateThresholds MatchString tc metrics
        = concat (map (validateMetric MatchString tc minSamples) metrics) \<and>
      (sampleCount < minSamples \<longrightarrow> validateMetric MatchString tc minSamples (name, metric) = []) \<and>
      (isEndpointMetric name \<and> minSamples \<le> sampleCount \<and>
       (\<forall>override. MinSamples thresholds = Some override \<longrightarrow> override \<le> sampleCount) \<longrightarrow>
         validateMetric MatchString tc minSamples (name, metric)
           = checkDurationThresholds tc name metric thresholds sampleCount
             @ checkRateThresholds tc name metric thresholds sampleCount)"
proof -
  have i: "Values metric ''count'' = Some (VInt64 c) \<longrightarrow> sampleCountOf metric = c" for c
    by (simp add: sampleCountOf_def)
  have f: "Values metric ''count'' = Some (VFloat64 c) \<and>
           - (2 ^ 63) \<le> (if 0 \<le> c then \<lfloor>c\<rfloor> else \<lceil>c\<rceil>) \<and>
           (if 0 \<le> c then \<lfloor>c\<rfloor> else \<lceil>c\<rceil>) < 2 ^ 63 \<longrightarrow>
           sampleCountOf metric = (if 0 \<le> c then \<lfloor>c\<rfloor> else \<lceil>c\<rceil>)" for c
    by (simp add: sampleCountOf_def int64_of_float64_def Let_def)
  have z: "(\<forall>c. Values metric ''count'' \<noteq> Some (VInt64 c)) \<and>
       (\<forall>c. Values metric ''count'' \<noteq> Some (VFloat64 c)) \<longrightarrow> sampleCountOf metric = 0"
    by (simp add: sampleCountOf_def split: option.splits val.splits)
  have r: "effectiveMinSamples tc
             = (if opt_MinSamples (Options tc) = 0 then 100 else opt_MinSamples (Options tc)) \<and>
      ValidateThresholds MatchString tc metrics
        = concat (map (validateMetric MatchString tc (effectiveMinSamples tc)) metrics) \<and>
      (sampleCountOf metric < effectiveMinSamples tc \<longrightarrow>
         validateMetric MatchString tc (effectiveMinSamples tc) (name, metric) = []) \<and>
      (isEndpointMetric name \<and> effectiveMinSamples tc \<le> sampleCountOf metric \<and>
       (\<forall>override. MinSamples (GetThresholdForEndpoint MatchString tc name) = Some override
           \<longrightarrow> override \<le> sampleCountOf metric) \<longrightarrow>
         validateMetric MatchString tc (effectiveMinSamples tc) (name, metric)
           = checkDurationThresholds tc name metric (GetThresholdForEndpoint MatchString tc name)
               (sampleCountOf metric)
             @ checkRateThresholds tc name metric (GetThresholdForEndpoint MatchString tc name)
               (sampleCountOf metric))"
    by (simp add: Let_def effectiveMinSamples_def ValidateThresholds_def validateMetric_def)
  from i f z r show ?thesis unfolding Let_def by blast
qed

text \<open>
  The test of the repository: \<open>GET /slow\<close> with \<open>50\<close> samples is skipped, \<open>GET /users\<close> with
  \<open>150\<close> samples is validated and yields the one \<open>p(95)\<close> breach.
\<close>

theorem min_sample_gate_witness:
  "Values slow_metric ''count'' = Some (VInt64 50) \<and> sampleCountOf slow_metric = 50 \<and>
   effectiveMinSamples DefaultThresholdConfig = 100 \<and>
   sampleCountOf slow_metric < effectiveMinSamples DefaultThresholdConfig \<and>
   validateMetric globMatchString DefaultThresholdConfig
     (effectiveMinSamples DefaultThresholdConfig) (''GET /slow'', slow_metric) = [] \<and>
   isEndpointMetric ''GET /users'' \<and>
   effectiveMinSamples DefaultThresholdConfig \<le> sampleCountOf users_metric \<and>
   MinSamples (GetThresholdForEndpoint globMatchString DefaultThresholdConfig ''GET /users'') = None \<and>
   validateMetric globMatchString DefaultThresholdConfig
     (effectiveMinSamples DefaultThresholdConfig) (''GET /users'', users_metric)
   = checkDurationThresholds DefaultThresholdConfig ''GET /users'' users_metric
       (GetThresholdForEndpoint globMatchString DefaultThresholdConfig ''GET /users'') 150
     @ checkRateThresholds DefaultThresholdConfig ''GET /users'' users_metric
       (GetThresholdForEndpoint globMatchString DefaultThresholdConfig ''GET /users'') 150 \<and>
   ValidateThresholds globMatchString DefaultThresholdConfig
       [(''GET /users'', users_metric), (''GET /slow'', slow_metric)]
   = [\<lparr>b_Endpoint = ''GET /users'', b_Metric = ''p(95)'', b_Value = 400, b_Threshold = 300,
       b_Unit = ''ms'', b_Severity = ''error'', b_SampleCount = 150\<rparr>]"
proof -
  note sc_slow = sampleCount_examples(2)
  note sc_users = sampleCount_examples(1)
  have ov: "MinSamples (GetThresholdForEndpoint globMatchString DefaultThresholdConfig ''GET /users'') = None"
    unfolding thresholds_get_users by (simp add: noThresholds_def)
  note slow = min_sample_gate [of DefaultThresholdConfig globMatchString "''GET /slow''" slow_metric
      "[(''GET /users'', users_metric), (''GET /slow'', slow_metric)]",
      unfolded Let_def effMin_default sc_slow]
  note users = min_sample_gate [of DefaultThresholdConfig globMatchString "''GET /users''" users_metric
      "[]", unfolded Let_def effMin_default sc_users ov]
  have a: "validateMetric globMatchString DefaultThresholdConfig 100 (''GET /slow'', slow_metric) = []"
    using slow by simp
  have b: "validateMetric globMatchString DefaultThresholdConfig 100 (''GET /users'', users_metric)
   = checkDurationThresholds DefaultThresholdConfig ''GET /users'' users_metric
       (GetThresholdForEndpoint globMatchString DefaultThresholdConfig ''GET /users'') 150
     @ checkRateThresholds DefaultThresholdConfig ''GET /users'' users_metric
       (GetThresholdForEndpoint globMatchString DefaultThresholdConfig ''GET /users'') 150"
    using users get_users_not_system by simp
  have c: "ValidateThresholds globMatchString DefaultThresholdConfig
       [(''GET /users'', users_metric), (''GET /slow'', slow_metric)]
     = validateMetric globMatchString DefaultThresholdConfig 100 (''GET /users'', users_metric)
       @ validateMetric globMatchString DefaultThresholdConfig 100 (''GET /slow'', slow_metric)"
    using slow by simp
  have v: "Values slow_metric ''count'' = Some (VInt64 50)" by (simp add: slow_metric_def)
  show ?thesis
    unfolding effMin_default sc_slow sc_users c a
    using b ov v get_users_not_system validate_get_users by simp
qed

lemma no_group_min0:
  "overlayFirstGroup globMatchString ''GET /slow'' (Groups config_min0) r = r"
  using no_group_get_slow by (simp add: config_min0_def)

lemma thresholds_min0:
  "GetThresholdForEndpoint globMatchString config_min0 ''GET /slow'' = Defaults DefaultThresholdConfig"
proof -
  have "GetThresholdForEndpoint globMatchString config_min0 ''GET /slow'' = Defaults config_min0"
    by (rule thresholds_default) (simp_all add: no_group_min0, simp add: config_min0_def DefaultThresholdConfig_def)
  then show ?thesis by (simp add: config_min0_def)
qed

lemma slow_breaches:
  "checkDurationThresholds config_min0 ''GET /slow'' slow_metric (Defaults DefaultThresholdConfig) 50
    = [\<lparr>b_Endpoint = ''GET /slow'', b_Metric = ''p(95)'', b_Value = 600, b_Threshold = 500,
       b_Unit = ''ms'', b_Severity = ''error'', b_SampleCount = 50\<rparr>]"
  by code_simp

lemma default_minimum_applies:
  "opt_MinSamples (Options config_min0) = 0 \<and>
   MinSamples (GetThresholdForEndpoint globMatchString config_min0 ''GET /slow'') = None \<and>
   sampleCountOf slow_metric = 50 \<and>
   checkDurationThresholds config_min0 ''GET /slow'' slow_metric
     (GetThresholdForEndpoint globMatchString config_min0 ''GET /slow'') 50 \<noteq> [] \<and>
   ValidateThresholds globMatchString config_min0 [(''GET /slow'', slow_metric)] = []"
proof -
  note sc = sampleCount_examples(2)
  have "checkDurationThresholds config_min0 ''GET /slow'' slow_metric
     (Defaults DefaultThresholdConfig) 50 \<noteq> []"
    unfolding slow_breaches by simp
  moreover have "ValidateThresholds globMatchString config_min0 [(''GET /slow'', slow_metric)] = []"
    by (simp add: ValidateThresholds_def validateMetric_def Let_def sc effectiveMinSamples_def
        config_min0_def)
  moreover have "MinSamples (Defaults DefaultThresholdConfig) = None"
    by (simp add: DefaultThresholdConfig_def noThresholds_def)
  moreover have "opt_MinSamples (Options config_min0) = 0" by (simp add: config_min0_def)
  ultimately show ?thesis unfolding thresholds_min0 using sc by simp
qed

lemma thresholds_override:
  "GetThresholdForEndpoint globMatchString config_override ''GET /slow''
     = (Defaults DefaultThresholdConfig)\<lparr>MinSamples := Some 200\<rparr>"
proof -
  have g: "overlayFirstGroup globMatchString ''GET /slow'' (Groups config_override) r = r" for r
    using no_group_get_slow by (simp add: config_override_def)
  show ?thesis
    unfolding GetThresholdForEndpoint_def Let_def g
    by (simp add: config_override_def mergeThresholdValues_def noThresholds_def
        DefaultThresholdConfig_def)
qed

lemma override_ignored:
  "MinSamples (GetThresholdForEndpoint globMatchString config_override ''GET /slow'') = Some 200 \<and>
   sampleCountOf busy_metric = 150 \<and>
   ValidateThresholds globMatchString config_override [(''GET /slow'', busy_metric)]
     = [\<lparr>b_Endpoint = ''GET /slow'', b_Metric = ''p(95)'', b_Value = 600, b_Threshold = 500,
         b_Unit = ''ms'', b_Severity = ''error'', b_SampleCount = 150\<rparr>]"
proof -
  note sc = sampleCount_examples(3)
  have em: "effectiveMinSamples config_override = 100"
    by (simp add: effectiveMinSamples_def config_override_def DefaultThresholdConfig_def)
  have d: "checkDurationThresholds config_override ''GET /slow'' busy_metric
            ((Defaults DefaultThresholdConfig)\<lparr>MinSamples := Some 200\<rparr>) 150
    = [\<lparr>b_Endpoint = ''GET /slow'', b_Metric = ''p(95)'', b_Value = 600, b_Threshold = 500,
         b_Unit = ''ms'', b_Severity = ''error'', b_SampleCount = 150\<rparr>]"
    by code_simp
  have r: "checkRateThresholds config_override ''GET /slow'' busy_metric
            ((Defaults DefaultThresholdConfig)\<lparr>MinSamples := Some 200\<rparr>) 150 = []"
    by code_simp
  have "ValidateThresholds globMatchString config_override [(''GET /slow'', busy_metric)]
     = checkDurationThresholds config_override ''GET /slow'' busy_metric
            ((Defaults DefaultThresholdConfig)\<lparr>MinSamples := Some 200\<rparr>) 150
       @ checkRateThresholds config_override ''GET /slow'' busy_metric
            ((Defaults DefaultThresholdConfig)\<lparr>MinSamples := Some 200\<rparr>) 150"
    by (simp add: ValidateThresholds_def validateMetric_def Let_def em thresholds_override sc
        get_slow_not_system)
  then show ?thesis unfolding thresholds_override d r using sc by simp
qed

text \<open>
  Claim C7 as stated fails. With \<open>options.min_samples = 0\<close> and no override, a metric with
  \<open>50\<close> samples is at or above the stated minimum and would breach \<open>p(95)\<close>, yet the
  validator skips it (it applies \<open>100\<close>). With \<open>options.min_samples = 100\<close> and a resolved
  override of \<open>200\<close>, a metric with \<open>150\<close> samples is below the override, yet the validator
  emits its breach (the override is not consulted).
\<close>

theorem min_sample_gate_counterexample:
  "(opt_MinSamples (Options config_min0) = 0 \<and>
    MinSamples (GetThresholdForEndpoint globMatchString config_min0 ''GET /slow'') = None \<and>
    sampleCountOf slow_metric = 50 \<and>
    checkDurationThresholds config_min0 ''GET /slow'' slow_metric
      (GetThresholdForEndpoint globMatchString config_min0 ''GET /slow'') 50 \<noteq> [] \<and>
    ValidateThresholds globMatchString config_min0 [(''GET /slow'', slow_metric)] = []) \<and>
   (MinSamples (GetThresholdForEndpoint globMatchString config_override ''GET /slow'') = Some 200 \<and>
    sampleCountOf busy_metric = 150 \<and>
    ValidateThresholds globMatchString config_override [(''GET /slow'', busy_metric)]
      = [\<lparr>b_Endpoint = ''GET /slow'', b_Metric = ''p(95)'', b_Value = 600, b_Threshold = 500,
          b_Unit = ''ms'', b_Severity = ''error'', b_SampleCount = 150\<rparr>])"
  using default_minimum_applies override_ignored by blast

lemma mergeRateMetric_Values:
  "Values (mergeRateMetric t s) =
    (let p = getFloat64 (Values t) ''passes'' 0 + getFloat64 (Values s) ''passes'' 0;
         f = getFloat64 (Values t) ''fails'' 0 + getFloat64 (Values s) ''fails'' 0;
         tv = (Values t)(''passes'' \<mapsto> VFloat64 p, ''fails'' \<mapsto> VFloat64 f)
     in if p + f > 0 then tv(''value'' \<mapsto> VFloat64 (p / (p + f))) else tv)"
  by (simp add: mergeRateMetric_def Let_def)

lemma ratio_bounds:
  fixes p f :: real
  assumes "0 \<le> p" "0 \<le> f" "0 < p + f"
  shows "0 \<le> p / (p + f) \<and> p / (p + f) \<le> 1"
  using assms by (simp add: divide_le_eq)

text \<open>
  Claim C8, as amended. Merging two rate metrics sets \<open>passes\<close> and \<open>fails\<close> to the
  sums; when the summed denominator is positive, \<open>value\<close> becomes
  \<open>passes / (passes + fails)\<close>; when it is not positive, \<open>value\<close> is left as the target
  had it (it is not reset to \<open>0\<close>). For non-negative passes and fails the new value lies
  in \<open>[0, 1]\<close> when the denominator is positive, and a target that satisfied the
  rate-value relation before the merge satisfies it afterwards.
\<close>

theorem mergeRate_value:
  assumes "Type t = ''rate''" and "Type s = ''rate''"
  shows "let p = getFloat64 (Values t) ''passes'' 0 + getFloat64 (Values s) ''passes'' 0;
             f = getFloat64 (Values t) ''fails'' 0 + getFloat64 (Values s) ''fails'' 0;
             r = mergeMetric t s strategy
         in Values r ''passes'' = Some (VFloat64 p) \<and>
            Values r ''fails'' = Some (VFloat64 f) \<and>
            (p + f > 0 \<longrightarrow> Values r ''value'' = Some (VFloat64 (p / (p + f)))) \<and>
            (\<not> p + f > 0 \<longrightarrow> Values r ''value'' = Values t ''value'') \<and>
            (0 \<le> getFloat64 (Values t) ''passes'' 0 \<and> 0 \<le> getFloat64 (Values s) ''passes'' 0 \<and>
             0 \<le> getFloat64 (Values t) ''fails'' 0 \<and> 0 \<le> getFloat64 (Values s) ''fails'' 0 \<longrightarrow>
               (p + f > 0 \<longrightarrow> 0 \<le> getFloat64 (Values r) ''value'' 0
                                \<and> getFloat64 (Values r) ''value'' 0 \<le> 1) \<and>
               (rate_value_ok t \<longrightarrow> rate_value_ok r))"
proof -
  let ?pt = "getFloat64 (Values t) ''passes'' 0" and ?ps = "getFloat64 (Values s) ''passes'' 0"
  let ?ft = "getFloat64 (Values t) ''fails'' 0" and ?fs = "getFloat64 (Values s) ''fails'' 0"
  let ?p = "?pt + ?ps" and ?f = "?ft + ?fs"
  let ?r = "mergeMetric t s strategy"
  have disp: "?r = mergeRateMetric t s"
    using assms by (simp add: mergeMetric_def)
  note V = mergeRateMetric_Values [of t s, unfolded Let_def, folded disp]
  have k1: "Values ?r ''passes'' = Some (VFloat64 ?p)" unfolding V by simp
  have k2: "Values ?r ''fails'' = Some (VFloat64 ?f)" unfolding V by simp
  have k3: "?p + ?f > 0 \<Longrightarrow> Values ?r ''value'' = Some (VFloat64 (?p / (?p + ?f)))"
    unfolding V by simp
  have k4: "\<not> ?p + ?f > 0 \<Longrightarrow> Values ?r ''value'' = Values t ''value''"
    unfolding V by simp
  have g1: "getFloat64 (Values ?r) ''passes'' 0 = ?p" using k1 by (simp add: getFloat64_def)
  have g2: "getFloat64 (Values ?r) ''fails'' 0 = ?f" using k2 by (simp add: getFloat64_def)
  have g3: "?p + ?f > 0 \<Longrightarrow> getFloat64 (Values ?r) ''value'' 0 = ?p / (?p + ?f)"
    using k3 by (simp add: getFloat64_def)
  have g4: "\<not> ?p + ?f > 0 \<Longrightarrow> getFloat64 (Values ?r) ''value'' 0 = getFloat64 (Values t) ''value'' 0"
    using k4 by (simp add: getFloat64_def)
  {
    assume nn: "0 \<le> ?pt" "0 \<le> ?ps" "0 \<le> ?ft" "0 \<le> ?fs"
    have b: "?p + ?f > 0 \<Longrightarrow> 0 \<le> getFloat64 (Values ?r) ''value'' 0
                                \<and> getFloat64 (Values ?r) ''value'' 0 \<le> 1"
    proof -
      assume pos: "?p + ?f > 0"
      from nn have "0 \<le> ?p" "0 \<le> ?f" by simp_all
      from ratio_bounds [OF this pos] g3 [OF pos] show ?thesis by simp
    qed
    have c: "rate_value_ok ?r" if ok: "rate_value_ok t"
    proof (cases "?p + ?f > 0")
      case True
      with g1 g2 g3 show ?thesis by (simp add: rate_value_ok_def Let_def)
    next
      case False
      with nn have z: "?pt = 0" "?ps = 0" "?ft = 0" "?fs = 0" by linarith+
      with ok have "getFloat64 (Values t) ''value'' 0 = 0"
        by (simp add: rate_value_ok_def Let_def)
      with g4 [OF False] have "getFloat64 (Values ?r) ''value'' 0 = 0" by simp
      with g1 g2 z show ?thesis by (simp add: rate_value_ok_def Let_def)
    qed
    note b c
  }
  with k1 k2 k3 k4 show ?thesis unfolding Let_def by blast
qed

theorem mergeRate_value_witness:
  "Type rate_example_target = ''rate'' \<and> Type rate_example_source = ''rate'' \<and>
   rate_value_ok rate_example_target \<and>
   Values (mergeMetric rate_example_target rate_example_source []) ''passes''
     = Some (VFloat64 17) \<and>
   Values (mergeMetric rate_example_target rate_example_source []) ''fails''
     = Some (VFloat64 3) \<and>
   Values (mergeMetric rate_example_target rate_example_source []) ''value''
     = Some (VFloat64 0.85) \<and>
   rate_value_ok (mergeMetric rate_example_target rate_example_source [])"
  using mergeRate_value [of rate_example_target rate_example_source "[]"]
  by (simp add: Let_def rate_example_target_def rate_example_source_def getFloat64_def
      rate_value_ok_def)

text \<open>
  Claim C8 as stated fails: a target with \<open>passes = fails = 0\<close> and \<open>value = 0.5\<close>,
  merged with a source that also has no samples, keeps \<open>value = 0.5\<close> although the
  denominator is \<open>0\<close>.
\<close>

theorem rate_value_zero_counterexample:
  "getFloat64 (Values (mergeMetric rate_example_zero rate_example_zero ''weighted'')) ''passes'' 0
     + getFloat64 (Values (mergeMetric rate_example_zero rate_example_zero ''weighted'')) ''fails'' 0 = 0 \<and>
   getFloat64 (Values (mergeMetric rate_example_zero rate_example_zero ''weighted'')) ''value'' 0 = 0.5 \<and>
   \<not> rate_value_ok (mergeMetric rate_example_zero rate_example_zero ''weighted'')"
  by (simp add: rate_value_ok_def mergeMetric_def mergeRateMetric_def rate_example_zero_def
      getFloat64_def Let_def)

subsection \<open>The validator's list of system metrics\<close>

lemma waiting_global: "isGlobalMetric ''http_req_waiting''"
  by (simp add: isGlobalMetric_def globalMetrics_def HasPrefix_def)

lemma waiting_endpoint: "isEndpointMetric ''http_req_waiting''"
  by (simp add: isEndpointMetric_def systemMetrics_def HasPrefix_def)

lemma thresholds_waiting:
  "GetThresholdForEndpoint globMatchString DefaultThresholdConfig ''http_req_waiting'' =
     Defaults DefaultThresholdConfig"
proof (rule thresholds_default)
  show "Endpoints DefaultThresholdConfig ''http_req_waiting'' = None"
    by (simp add: DefaultThresholdConfig_def)
  show "overlayFirstGroup globMatchString ''http_req_waiting'' (Groups DefaultThresholdConfig)
     (Defaults DefaultThresholdConfig) = Defaults DefaultThresholdConfig"
    by (simp add: DefaultThresholdConfig_def matchesPattern_def ReplaceAll_star_def
      globMatchString_def plainChar_def Let_def)
qed

text \<open>
  Claim C9 at a failing input. \<open>http_req_waiting\<close> is in the canonical global-metric set
  of the aggregator, but the validator's own list of system metrics lacks it (and the other
  five \<open>http_req_*\<close> timing names), so the validator resolves thresholds for it and emits
  a breach.
\<close>

theorem validator_examines_global_metric:
  "isGlobalMetric ''http_req_waiting'' \<and>
   ValidateThresholds globMatchString DefaultThresholdConfig [(''http_req_waiting'', busy_metric)]
     = [\<lparr>b_Endpoint = ''http_req_waiting'', b_Metric = ''p(95)'', b_Value = 600,
         b_Threshold = 500, b_Unit = ''ms'', b_Severity = ''error'', b_SampleCount = 150\<rparr>]"
proof -
  note sc = sampleCount_examples(3)
  have d: "checkDurationThresholds DefaultThresholdConfig ''http_req_waiting'' busy_metric
            (Defaults DefaultThresholdConfig) 150
    = [\<lparr>b_Endpoint = ''http_req_waiting'', b_Metric = ''p(95)'', b_Value = 600, b_Threshold = 500,
         b_Unit = ''ms'', b_Severity = ''error'', b_SampleCount = 150\<rparr>]"
    by code_simp
  have r: "checkRateThresholds DefaultThresholdConfig ''http_req_waiting'' busy_metric
            (Defaults DefaultThresholdConfig) 150 = []"
    by code_simp
  have "ValidateThresholds globMatchString DefaultThresholdConfig [(''http_req_waiting'', busy_metric)]
     = checkDurationThresholds DefaultThresholdConfig ''http_req_waiting'' busy_metric
            (Defaults DefaultThresholdConfig) 150
       @ checkRateThresholds DefaultThresholdConfig ''http_req_waiting'' busy_metric
            (Defaults DefaultThresholdConfig) 150"
    by (simp add: ValidateThresholds_def validateMetric_def Let_def effMin_default
        thresholds_waiting sc waiting_endpoint)
  then show ?thesis unfolding d r using waiting_global by simp
qed


subsection \<open>The budget of the metric loop\<close>

lemma cloneMetric_id: "cloneMetric m = m"
  by (simp add: cloneMetric_def)

lemma storeMetric_result:
  "result_Metrics (storeMetric config key m st) =
     (result_Metrics st)(key \<mapsto>
        (case result_Metrics st key of
           None \<Rightarrow> m
         | Some existing \<Rightarrow> mergeMetric existing m (MergePercentiles config)))"
  by (simp add: storeMetric_def cloneMetric_id split: option.splits)

lemma aggregateMetric_own_key:
  assumes "\<not> isGlobalMetric name" and "endpointCount st < MaxEndpoints config"
      and "endpointMap st name = None \<or> endpointMap st name = Some name"
  shows "aggregateMetric md5hex config st (name, m) =
           storeMetric config name m
             (st\<lparr>endpointMap := (endpointMap st)(name \<mapsto> name),
                 endpointCount := endpointCount st + 1\<rparr>)"
  using assms by (auto simp: aggregateMetric_def Let_def normalizeEndpoint_def)

text \<open>
  Claim C10 (the budget counts occurrences). With a non-negative ceiling, after any list
  of snapshots the counter \<open>endpointCount\<close> equals the number of endpoint (non-global)
  metric entries processed so far, capped at \<open>MaxEndpoints\<close>: every such entry spends
  one unit, whether or not its key was recorded before. While the number of entries
  processed is below the ceiling, the next endpoint entry spends one more unit, and when
  its name is unrecorded or recorded for that same name, the sample is stored under its
  name (as it is when the name is new to the aggregate, merged into the metric already
  there otherwise). Once the number of entries has reached the ceiling, the next endpoint
  entry spends nothing: with \<open>NoBucket\<close> the state is unchanged and the sample is lost;
  without it, \<open>endpointsBucketed\<close> grows by one and the sample goes to the key \<open>other\<close>
  (stored as it is when \<open>other\<close> is new, merged into the metric there otherwise), every
  other key keeping its metric.
\<close>

theorem budget_counts_occurrences:
  assumes "0 \<le> MaxEndpoints config"
  shows "let st = foldl (aggregateSnapshot md5hex config) initialAggState metricsList;
             seen = endpointOccurrences (concat metricsList)
         in endpointCount st = min (MaxEndpoints config) (int seen) \<and>
            (\<forall>name m. \<not> isGlobalMetric name \<longrightarrow>
               (int seen < MaxEndpoints config \<longrightarrow>
                  endpointCount (aggregateMetric md5hex config st (name, m)) = endpointCount st + 1 \<and>
                  endpointsBucketed (aggregateMetric md5hex config st (name, m))
                    = endpointsBucketed st \<and>
                  (endpointMap st name = None \<or> endpointMap st name = Some name \<longrightarrow>
                     result_Metrics (aggregateMetric md5hex config st (name, m)) name =
                       Some (case result_Metrics st name of
                               None \<Rightarrow> m
                             | Some existing \<Rightarrow> mergeMetric existing m (MergePercentiles config)))) \<and>
               (MaxEndpoints config \<le> int seen \<and> NoBucket config \<longrightarrow>
                  aggregateMetric md5hex config st (name, m) = st) \<and>
               (MaxEndpoints config \<le> int seen \<and> \<not> NoBucket config \<longrightarrow>
                  endpointCount (aggregateMetric md5hex config st (name, m)) = endpointCount st \<and>
                  endpointsBucketed (aggregateMetric md5hex config st (name, m))
                    = endpointsBucketed st + 1 \<and>
                  endpointMap (aggregateMetric md5hex config st (name, m)) = endpointMap st \<and>
                  result_Metrics (aggregateMetric md5hex config st (name, m)) ''other'' =
                    Some (case result_Metrics st ''other'' of
                            None \<Rightarrow> m
                          | Some existing \<Rightarrow> mergeMetric existing m (MergePercentiles config)) \<and>
                  (\<forall>k. k \<noteq> ''other'' \<longrightarrow>
                     result_Metrics (aggregateMetric md5hex config st (name, m)) k
                       = result_Metrics st k)))"
proof -
  let ?st = "foldl (aggregateSnapshot md5hex config) initialAggState metricsList"
  let ?seen = "endpointOccurrences (concat metricsList)"
  have init: "endpointCount initialAggState \<le> MaxEndpoints config"
    using assms by (simp add: initialAggState_def)
  have cnt: "endpointCount ?st = min (MaxEndpoints config) (int ?seen)"
    unfolding foldl_aggregateSnapshot
    using foldl_aggregateMetric_count [OF init, of md5hex "concat metricsList"]
    by (simp add: initialAggState_def)
  have under: "endpointCount (aggregateMetric md5hex config ?st (name, m)) = endpointCount ?st + 1 \<and>
      endpointsBucketed (aggregateMetric md5hex config ?st (name, m)) = endpointsBucketed ?st \<and>
      (endpointMap ?st name = None \<or> endpointMap ?st name = Some name \<longrightarrow>
         result_Metrics (aggregateMetric md5hex config ?st (name, m)) name =
           Some (case result_Metrics ?st name of
                   None \<Rightarrow> m
                 | Some existing \<Rightarrow> mergeMetric existing m (MergePercentiles config)))"
    if ng: "\<not> isGlobalMetric name" and lt: "int ?seen < MaxEndpoints config" for name m
  proof -
    from lt cnt have b: "endpointCount ?st < MaxEndpoints config" by simp
    from aggregateMetric_under [OF ng b, of md5hex m]
    obtain key where k: "aggregateMetric md5hex config ?st (name, m) =
       storeMetric config key m
         (?st\<lparr>endpointMap := (endpointMap ?st)(key \<mapsto> name),
              endpointCount := endpointCount ?st + 1\<rparr>)"
      by blast
    have c1: "endpointCount (aggregateMetric md5hex config ?st (name, m)) = endpointCount ?st + 1"
      unfolding k by (simp add: storeMetric_fields)
    have c2: "endpointsBucketed (aggregateMetric md5hex config ?st (name, m)) = endpointsBucketed ?st"
      unfolding k by (simp add: storeMetric_fields)
    have c3: "result_Metrics (aggregateMetric md5hex config ?st (name, m)) name =
           Some (case result_Metrics ?st name of
                   None \<Rightarrow> m
                 | Some existing \<Rightarrow> mergeMetric existing m (MergePercentiles config))"
      if "endpointMap ?st name = None \<or> endpointMap ?st name = Some name"
      unfolding aggregateMetric_own_key [OF ng b that] by (simp add: storeMetric_result)
    from c1 c2 c3 show ?thesis by blast
  qed
  have over: "MaxEndpoints config \<le> endpointCount ?st" if "MaxEndpoints config \<le> int ?seen"
    using that cnt by simp
  have drop: "aggregateMetric md5hex config ?st (name, m) = ?st"
    if "\<not> isGlobalMetric name" "MaxEndpoints config \<le> int ?seen" "NoBucket config" for name m
    using aggregateMetric_over [OF that(1) over [OF that(2)], of md5hex m] that(3) by simp
  have bucket: "endpointCount (aggregateMetric md5hex config ?st (name, m)) = endpointCount ?st \<and>
      endpointsBucketed (aggregateMetric md5hex config ?st (name, m)) = endpointsBucketed ?st + 1 \<and>
      endpointMap (aggregateMetric md5hex config ?st (name, m)) = endpointMap ?st \<and>
      result_Metrics (aggregateMetric md5hex config ?st (name, m)) ''other'' =
        Some (case result_Metrics ?st ''other'' of
                None \<Rightarrow> m
              | Some existing \<Rightarrow> mergeMetric existing m (MergePercentiles config)) \<and>
      (\<forall>k. k \<noteq> ''other'' \<longrightarrow>
         result_Metrics (aggregateMetric md5hex config ?st (name, m)) k = result_Metrics ?st k)"
    if "\<not> isGlobalMetric name" "MaxEndpoints config \<le> int ?seen" "\<not> NoBucket config" for name m
  proof -
    have e: "aggregateMetric md5hex config ?st (name, m) =
        storeMetric config ''other'' m (?st\<lparr>endpointsBucketed := endpointsBucketed ?st + 1\<rparr>)"
      using aggregateMetric_over [OF that(1) over [OF that(2)], of md5hex m] that(3) by simp
    show ?thesis unfolding e by (simp add: storeMetric_fields storeMetric_result)
  qed
  from cnt under drop bucket show ?thesis unfolding Let_def by blast
qed

lemma e_not_global: "\<not> isGlobalMetric ''e''"
  by (simp add: isGlobalMetric_def globalMetrics_def HasPrefix_def)

lemma two_snapshots_state:
  "foldl (aggregateSnapshot noHash config2) initialAggState [[(''e'', trend1)], [(''e'', trend1)]]
     = \<lparr>endpointMap = [''e'' \<mapsto> ''e''], endpointCount = 2, endpointsBucketed = 0,
        result_Metrics = [''e'' \<mapsto> mergeMetric trend1 trend1 ''weighted'']\<rparr>"
  by (simp add: aggregateSnapshot_def aggregateMetric_def e_not_global Let_def config2_def
      initialAggState_def normalizeEndpoint_def storeMetric_def cloneMetric_id)

lemma merged_count: "Values (mergeMetric trend1 trend1 ''weighted'') ''count'' = Some (VFloat64 2)"
  by (simp add: mergeMetric_def mergeTrendMetric_def trend1_def getFloat64_def Let_def
      percentiles_def mergePercentile_def)

text \<open>
  The same endpoint \<open>e\<close> in three snapshots under a ceiling of \<open>2\<close>: after two snapshots
  the budget is spent although one key is recorded, holding the merge of the two samples;
  the third sample lands in \<open>other\<close>, stored as it is, and \<open>e\<close> keeps the merge of two.
\<close>

theorem budget_counts_occurrences_witness:
  "0 \<le> MaxEndpoints config2 \<and> \<not> isGlobalMetric ''e'' \<and> \<not> NoBucket config2 \<and>
   MaxEndpoints config2 \<le> int (endpointOccurrences (concat [[(''e'', trend1)], [(''e'', trend1)]])) \<and>
   endpointCount (foldl (aggregateSnapshot noHash config2) initialAggState
                    [[(''e'', trend1)], [(''e'', trend1)]]) = 2 \<and>
   dom (result_Metrics (foldl (aggregateSnapshot noHash config2) initialAggState
                    [[(''e'', trend1)], [(''e'', trend1)]])) = {''e''} \<and>
   result_Metrics (foldl (aggregateSnapshot noHash config2) initialAggState
                    [[(''e'', trend1)], [(''e'', trend1)], [(''e'', trend1)]]) ''other''
     = Some trend1 \<and>
   result_Metrics (foldl (aggregateSnapshot noHash config2) initialAggState
                    [[(''e'', trend1)], [(''e'', trend1)], [(''e'', trend1)]]) ''e''
     = Some (mergeMetric trend1 trend1 ''weighted'') \<and>
   Values (mergeMetric trend1 trend1 ''weighted'') ''count'' = Some (VFloat64 2)"
proof -
  let ?two = "[[(''e'', trend1)], [(''e'', trend1)]]"
  let ?st2 = "foldl (aggregateSnapshot noHash config2) initialAggState ?two"
  have h: "0 \<le> MaxEndpoints config2" by (simp add: config2_def)
  have nb: "\<not> NoBucket config2" by (simp add: config2_def)
  have occ: "endpointOccurrences (concat ?two) = 2"
    by (simp add: endpointOccurrences_def e_not_global)
  have le: "MaxEndpoints config2 \<le> int (endpointOccurrences (concat ?two))"
    unfolding occ by (simp add: config2_def)
  note T = budget_counts_occurrences [OF h, of noHash ?two, unfolded Let_def]
  from T have c: "endpointCount ?st2 = 2" unfolding occ by (simp add: config2_def)
  from T e_not_global le nb
  have o: "result_Metrics (aggregateMetric noHash config2 ?st2 (''e'', trend1)) ''other'' =
             Some (case result_Metrics ?st2 ''other'' of
                     None \<Rightarrow> trend1
                   | Some existing \<Rightarrow> mergeMetric existing trend1 (MergePercentiles config2))"
    and k: "result_Metrics (aggregateMetric noHash config2 ?st2 (''e'', trend1)) ''e''
             = result_Metrics ?st2 ''e''"
    by blast+
  have three: "foldl (aggregateSnapshot noHash config2) initialAggState
                 [[(''e'', trend1)], [(''e'', trend1)], [(''e'', trend1)]]
               = aggregateMetric noHash config2 ?st2 (''e'', trend1)"
    by (simp add: aggregateSnapshot_def)
  have d2: "dom (result_Metrics ?st2) = {''e''}" unfolding two_snapshots_state by simp
  have r1: "result_Metrics (foldl (aggregateSnapshot noHash config2) initialAggState
                 [[(''e'', trend1)], [(''e'', trend1)], [(''e'', trend1)]]) ''other'' = Some trend1"
    using o unfolding three two_snapshots_state by simp
  have r2: "result_Metrics (foldl (aggregateSnapshot noHash config2) initialAggState
                 [[(''e'', trend1)], [(''e'', trend1)], [(''e'', trend1)]]) ''e''
             = Some (mergeMetric trend1 trend1 ''weighted'')"
    using k unfolding three two_snapshots_state by simp
  from h e_not_global nb le c d2 r1 r2 merged_count show ?thesis by blast
qed

end
